theory Spec2Isabelle
  imports Complex_Main
begin

section \<open>JavaScript strings\<close>

text \<open>
  A JavaScript string is a sequence of UTF-16 code units; a code unit is an integer
  here. \<open>js\<close> turns an ASCII literal into such a sequence. Characters outside ASCII are
  written by their code units (\<open>rsquo\<close> is U+2019, \<open>smile\<close> the surrogate pair of
  U+1F60A).
\<close>

type_synonym jsstring = "int list"

definition js :: "string \<Rightarrow> jsstring" where
  "js s = map of_char s"

definition rsquo :: jsstring where
  "rsquo = [0x2019]"

definition smile :: jsstring where
  "smile = [0xD83D, 0xDE0A]"

text \<open>
  The characters that \<open>String.prototype.trim\<close> strips and that the regular expression
  class \<open>\s\<close> matches: ECMAScript's WhiteSpace and LineTerminator code points.
\<close>

definition isWhiteSpace :: "int \<Rightarrow> bool" where
  "isWhiteSpace c \<longleftrightarrow>
     c = 0x9 \<or> c = 0xA \<or> c = 0xB \<or> c = 0xC \<or> c = 0xD \<or> c = 0x20 \<or> c = 0xA0 \<or>
     c = 0x1680 \<or> (0x2000 \<le> c \<and> c \<le> 0x200A) \<or> c = 0x2028 \<or> c = 0x2029 \<or>
     c = 0x202F \<or> c = 0x205F \<or> c = 0x3000 \<or> c = 0xFEFF"

definition isAsciiLetter :: "int \<Rightarrow> bool" where
  "isAsciiLetter c \<longleftrightarrow> (0x41 \<le> c \<and> c \<le> 0x5A) \<or> (0x61 \<le> c \<and> c \<le> 0x7A)"

definition trim :: "jsstring \<Rightarrow> jsstring" where
  "trim s = rev (dropWhile isWhiteSpace (rev (dropWhile isWhiteSpace s)))"

text \<open>
  \<open>s.toLowerCase()\<close>. On a string of ASCII code units it maps the letters A to Z to
  a to z and leaves the rest. On any other string the result is decided by the case
  tables of Unicode, which are not written out here: they are the parameter
  \<open>unicode\<close>, the function that lower-cases such a string.
\<close>

definition toLowerCase :: "(jsstring \<Rightarrow> jsstring) \<Rightarrow> jsstring \<Rightarrow> jsstring" where
  "toLowerCase unicode s =
     (if list_all (\<lambda>c. 0 \<le> c \<and> c < 0x80) s
      then map (\<lambda>c. if 0x41 \<le> c \<and> c \<le> 0x5A then c + 0x20 else c) s
      else unicode s)"

fun join :: "jsstring \<Rightarrow> jsstring list \<Rightarrow> jsstring" where
  "join sep [] = []"
| "join sep [x] = x"
| "join sep (x # y # ys) = x @ sep @ join sep (y # ys)"

text \<open>
  \<open>s.split(/\s+/)\<close>: the pieces between maximal runs of white space, empty pieces at
  the ends included (\<open>"".split(/\s+/)\<close> is \<open>[""]\<close>, \<open>" a".split(/\s+/)\<close> is
  \<open>["", "a"]\<close>).
\<close>

function split_ws :: "jsstring \<Rightarrow> jsstring list" where
  "split_ws s =
     (let piece = takeWhile (\<lambda>c. \<not> isWhiteSpace c) s;
          rest = dropWhile (\<lambda>c. \<not> isWhiteSpace c) s
      in if rest = [] then [piece] else piece # split_ws (dropWhile isWhiteSpace rest))"
  by pat_completeness auto
termination
proof (relation "measure length")
  fix s :: jsstring and piece rest
  assume r: "rest = dropWhile (\<lambda>c. \<not> isWhiteSpace c) s" and ne: "rest \<noteq> []"
  from ne obtain w ws where rw: "rest = w # ws" by (cases rest) auto
  have "length (dropWhile isWhiteSpace rest) \<le> length rest"
    by (rule length_dropWhile_le)
  moreover have "isWhiteSpace w"
  proof -
    have "dropWhile (\<lambda>c. \<not> isWhiteSpace c) s \<noteq> []"
      using r ne by simp
    from hd_dropWhile [OF this] show ?thesis
      using r rw by (metis list.sel(1))
  qed
  then have "dropWhile isWhiteSpace rest = dropWhile isWhiteSpace ws"
    using rw by simp
  moreover have "length (dropWhile isWhiteSpace ws) \<le> length ws"
    by (rule length_dropWhile_le)
  moreover have "length rest \<le> length s"
    unfolding r by (rule length_dropWhile_le)
  ultimately show "(dropWhile isWhiteSpace rest, s) \<in> measure length"
    using rw by simp
qed simp

declare split_ws.simps [simp del]

section \<open>Regular expressions\<close>

text \<open>
  The regular expressions of the source use character classes, concatenation,
  alternation and repetition only, and are tested anchored at both ends
  (\<open>/^...$/.test(s)\<close>, no flags), so that a test succeeds exactly when the whole string
  is in the expression's language. Matching is by derivatives.
\<close>

datatype rexp =
    Zero
  | One
  | Class "int \<Rightarrow> bool"
  | Alt rexp rexp
  | Seq rexp rexp
  | Star rexp

fun nullable :: "rexp \<Rightarrow> bool" where
  "nullable Zero = False"
| "nullable One = True"
| "nullable (Class P) = False"
| "nullable (Alt r s) = (nullable r \<or> nullable s)"
| "nullable (Seq r s) = (nullable r \<and> nullable s)"
| "nullable (Star r) = True"

text \<open>Alternation and concatenation that drop an operand without effect, so that
  derivatives stay small.\<close>

fun alt :: "rexp \<Rightarrow> rexp \<Rightarrow> rexp" where
  "alt Zero s = s"
| "alt r Zero = r"
| "alt r s = Alt r s"

fun seq :: "rexp \<Rightarrow> rexp \<Rightarrow> rexp" where
  "seq Zero s = Zero"
| "seq r Zero = Zero"
| "seq One s = s"
| "seq r One = r"
| "seq r s = Seq r s"

fun deriv :: "int \<Rightarrow> rexp \<Rightarrow> rexp" where
  "deriv c Zero = Zero"
| "deriv c One = Zero"
| "deriv c (Class P) = (if P c then One else Zero)"
| "deriv c (Alt r s) = alt (deriv c r) (deriv c s)"
| "deriv c (Seq r s) =
     (if nullable r then alt (seq (deriv c r) s) (deriv c s) else seq (deriv c r) s)"
| "deriv c (Star r) = seq (deriv c r) (Star r)"

fun matches :: "rexp \<Rightarrow> jsstring \<Rightarrow> bool" where
  "matches r [] = nullable r"
| "matches r (c # cs) = matches (deriv c r) cs"

definition Chr :: "char \<Rightarrow> rexp" where
  "Chr ch = Class (\<lambda>c. c = of_char ch)"

definition Plus1 :: "rexp \<Rightarrow> rexp" where
  "Plus1 r = Seq r (Star r)"

text \<open>\<open>r{1,2}\<close>\<close>

definition Rep12 :: "rexp \<Rightarrow> rexp" where
  "Rep12 r = Seq r (Alt One r)"

text \<open>
  \<open>s.replace(/R$/, rep)\<close> for a replacement without \<open>$\<close> patterns: the leftmost
  position from which \<open>R\<close> matches up to the end of the string is replaced.
\<close>

fun replace_at_end :: "rexp \<Rightarrow> jsstring \<Rightarrow> jsstring \<Rightarrow> jsstring" where
  "replace_at_end r rep [] = (if matches r [] then rep else [])"
| "replace_at_end r rep (c # cs) =
     (if matches r (c # cs) then rep else c # replace_at_end r rep cs)"

section \<open>JSON values\<close>

text \<open>
  The request body as \<open>express.json()\<close> hands it over. A number is carried as the two
  things the handlers observe of it: whether it is falsy (zero or NaN) and the string
  \<open>String(n)\<close> gives for it. \<open>JUndefined\<close> is what reading an absent property gives.
\<close>

datatype jsval =
    JUndefined
  | JNull
  | JBool bool
  | JNum bool jsstring
  | JStr jsstring
  | JArr "jsval list"
  | JObj "(jsstring \<times> jsval) list"

datatype exn = TypeError | ExternalError string

fun truthy :: "jsval \<Rightarrow> bool" where
  "truthy JUndefined = False"
| "truthy JNull = False"
| "truthy (JBool b) = b"
| "truthy (JNum falsy text) = (\<not> falsy)"
| "truthy (JStr s) = (s \<noteq> [])"
| "truthy (JArr xs) = True"
| "truthy (JObj kvs) = True"

fun typeof_js :: "jsval \<Rightarrow> string" where
  "typeof_js JUndefined = ''undefined''"
| "typeof_js JNull = ''object''"
| "typeof_js (JBool b) = ''boolean''"
| "typeof_js (JNum falsy text) = ''number''"
| "typeof_js (JStr s) = ''string''"
| "typeof_js (JArr xs) = ''object''"
| "typeof_js (JObj kvs) = ''object''"

text \<open>
  \<open>v[k]\<close> and \<open>v.k\<close> for the keys the handlers read (none of them is a property of a
  prototype): a TypeError on \<open>undefined\<close> and \<open>null\<close>, the own property of an object,
  \<open>undefined\<close> otherwise. \<open>get_opt\<close> is \<open>v?.k\<close>.
\<close>

fun get :: "jsval \<Rightarrow> string \<Rightarrow> exn + jsval" where
  "get JUndefined k = Inl TypeError"
| "get JNull k = Inl TypeError"
| "get (JObj kvs) k = Inr (case map_of kvs (js k) of None \<Rightarrow> JUndefined | Some v \<Rightarrow> v)"
| "get v k = Inr JUndefined"

fun get_opt :: "jsval \<Rightarrow> string \<Rightarrow> jsval" where
  "get_opt (JObj kvs) k = (case map_of kvs (js k) of None \<Rightarrow> JUndefined | Some v \<Rightarrow> v)"
| "get_opt v k = JUndefined"

text \<open>
  \<open>String(v)\<close>. An array joins its elements with a comma, \<open>null\<close> and \<open>undefined\<close>
  elements as the empty string. A parsed object gives \<open>[object Object]\<close>, unless it has
  an own property \<open>toString\<close>: that value is not callable, \<open>valueOf\<close> gives no
  primitive, and the conversion throws a TypeError.
\<close>

fun String_js :: "jsval \<Rightarrow> exn + jsstring"
  and String_elems :: "jsval list \<Rightarrow> exn + jsstring" where
  "String_js JUndefined = Inr (js ''undefined'')"
| "String_js JNull = Inr (js ''null'')"
| "String_js (JBool b) = Inr (if b then js ''true'' else js ''false'')"
| "String_js (JNum falsy text) = Inr text"
| "String_js (JStr s) = Inr s"
| "String_js (JArr xs) = String_elems xs"
| "String_js (JObj kvs) =
     (if js ''toString'' \<in> fst ` set kvs then Inl TypeError else Inr (js ''[object Object]''))"
| "String_elems [] = Inr []"
| "String_elems (v # vs) =
     (case (if v = JUndefined \<or> v = JNull then Inr [] else String_js v) of
        Inl e \<Rightarrow> Inl e
      | Inr s \<Rightarrow>
          (if vs = [] then Inr s
           else (case String_elems vs of
                   Inl e \<Rightarrow> Inl e
                 | Inr t \<Rightarrow> Inr (s @ js '','' @ t))))"

section \<open>Field validators\<close>

text \<open>The phone-number library, \<open>google-libphonenumber\<close>, is a collaborator: its two
  calls are parameters, and either may throw.\<close>

record 'p phoneUtil =
  parse :: "jsval \<Rightarrow> jsstring option \<Rightarrow> exn + 'p"
  isValidNumber :: "'p \<Rightarrow> exn + bool"

subsection \<open>src/api/webhook.js\<close>

text \<open>\<open>/^[A-Za-z\s]+$/\<close>\<close>

definition name_re :: rexp where
  "name_re = Plus1 (Class (\<lambda>c. isAsciiLetter c \<or> isWhiteSpace c))"

text \<open>\<open>/^[^\s@]+@[^\s@]+\.[^\s@]+$/\<close>\<close>

definition email_re :: rexp where
  "email_re =
     (let other = Class (\<lambda>c. \<not> (isWhiteSpace c \<or> c = of_char CHR ''@''))
      in Seq (Plus1 other) (Seq (Chr CHR ''@'')
           (Seq (Plus1 other) (Seq (Chr CHR ''.'') (Plus1 other)))))"

definition isValidName :: "jsval \<Rightarrow> bool" where
  "isValidName name =
     (case name of
        JStr s \<Rightarrow>
          (let trimmedName = trim s;
               nameParts = filter (\<lambda>part. length part > 0) (split_ws trimmedName)
           in matches name_re trimmedName \<and> length nameParts \<ge> 2)
      | _ \<Rightarrow> False)"

definition isValidEmail :: "jsval \<Rightarrow> bool" where
  "isValidEmail email =
     (case email of
        JStr s \<Rightarrow> matches email_re (trim s)
      | _ \<Rightarrow> False)"

text \<open>The result is a sum so that "no exception leaves the function" is a statement
  about it: \<open>Inl\<close> would be an exception that propagates.\<close>

definition isValidPhoneNumber :: "'p phoneUtil \<Rightarrow> jsval \<Rightarrow> exn + bool" where
  "isValidPhoneNumber phoneUtil phone =
     (case phone of
        JStr s \<Rightarrow>
          (case parse phoneUtil phone None of
             Inl error \<Rightarrow> Inr False
           | Inr parsed \<Rightarrow>
               (case isValidNumber phoneUtil parsed of
                  Inl error \<Rightarrow> Inr False
                | Inr valid \<Rightarrow> Inr valid))
      | _ \<Rightarrow> Inr False)"

subsection \<open>The variants of src/unnamed\<close>

text \<open>\<open>/^[A-Za-z]+( [A-Za-z]+){1,2}$/\<close> (part_001, part_002)\<close>

definition name23_re :: rexp where
  "name23_re =
     Seq (Plus1 (Class isAsciiLetter))
         (Rep12 (Seq (Chr CHR '' '') (Plus1 (Class isAsciiLetter))))"

text \<open>part_001, first handler: the type guards are there, the name is two or three
  words, the phone number is parsed with the default region \<open>ZM\<close>.\<close>

definition isValidName_001 :: "jsval \<Rightarrow> bool" where
  "isValidName_001 name =
     (case name of
        JStr s \<Rightarrow> matches name23_re (trim s)
      | _ \<Rightarrow> False)"

definition isValidPhoneNumber_001 :: "'p phoneUtil \<Rightarrow> jsval \<Rightarrow> exn + bool" where
  "isValidPhoneNumber_001 phoneUtil phone =
     (case phone of
        JStr s \<Rightarrow>
          (case parse phoneUtil phone (Some (js ''ZM'')) of
             Inl error \<Rightarrow> Inr False
           | Inr parsed \<Rightarrow>
               (case isValidNumber phoneUtil parsed of
                  Inl error \<Rightarrow> Inr False
                | Inr valid \<Rightarrow> Inr valid))
      | _ \<Rightarrow> Inr False)"

text \<open>part_002: no type guard. \<open>name.trim()\<close> on anything but a string is a TypeError
  (\<open>undefined\<close> and \<open>null\<close> have no properties, and no other parsed value has a callable
  \<open>trim\<close>).\<close>

definition isValidName_002 :: "jsval \<Rightarrow> exn + bool" where
  "isValidName_002 name =
     (case name of
        JStr s \<Rightarrow> Inr (matches name23_re (trim s))
      | _ \<Rightarrow> Inl TypeError)"

definition isValidEmail_002 :: "jsval \<Rightarrow> exn + bool" where
  "isValidEmail_002 email =
     (case email of
        JStr s \<Rightarrow> Inr (matches email_re (trim s))
      | _ \<Rightarrow> Inl TypeError)"

definition isValidPhoneNumber_002 :: "'p phoneUtil \<Rightarrow> jsval \<Rightarrow> exn + bool" where
  "isValidPhoneNumber_002 phoneUtil phone =
     (case parse phoneUtil phone None of
        Inl error \<Rightarrow> Inr False
      | Inr parsed \<Rightarrow>
          (case isValidNumber phoneUtil parsed of
             Inl error \<Rightarrow> Inr False
           | Inr valid \<Rightarrow> Inr valid))"

section \<open>Collaborators of the intake handlers\<close>

text \<open>
  The spreadsheet service and the mail service are outside the program. Each call made to
  them is recorded as an event, in order, and what the call answers (it resolves or it
  throws) is a parameter. \<open>console.log\<close> and \<open>console.error\<close> are not modelled.
\<close>

record env =
  GOOGLE_CLIENT_EMAIL :: "jsstring option"
  GOOGLE_PRIVATE_KEY :: "jsstring option"
  GOOGLE_SHEET_ID :: "jsstring option"
  EMAIL_AUTH_USER :: "jsstring option"
  EMAIL_AUTH_PASS :: "jsstring option"

datatype credentials =
    EnvCredentials "jsstring option" jsstring
  | KeyFile jsstring

record mailOptions =
  mail_from :: "jsstring option"
  mail_to :: jsstring
  mail_subject :: jsstring
  mail_text :: jsstring
  mail_html :: jsstring

datatype event =
    GetClient credentials
  | SheetsAppend "jsstring option" jsstring "jsval list"
  | SendMail mailOptions

record collaborators =
  process_env :: env
  getClient :: "credentials \<Rightarrow> exn option"
  sheetsAppend :: "jsstring option \<Rightarrow> jsstring \<Rightarrow> jsval list \<Rightarrow> exn option"
  sendMail :: "mailOptions \<Rightarrow> exn + jsstring"

text \<open>\<open>key.replace(/\\n/g, '\n')\<close>: every backslash followed by \<open>n\<close> becomes a line
  feed.\<close>

fun unescape_newlines :: "jsstring \<Rightarrow> jsstring" where
  "unescape_newlines (a # b # cs) =
     (if a = 0x5C \<and> b = 0x6E then 0xA # unescape_newlines cs
      else a # unescape_newlines (b # cs))"
| "unescape_newlines cs = cs"

text \<open>part_000 writes \<open>key.replace(/\\\\n/g, '\\n')\<close>: two backslashes followed by
  \<open>n\<close> become a backslash and \<open>n\<close>.\<close>

fun unescape_newlines_000 :: "jsstring \<Rightarrow> jsstring" where
  "unescape_newlines_000 (a # b # c # cs) =
     (if a = 0x5C \<and> b = 0x5C \<and> c = 0x6E then 0x5C # 0x6E # unescape_newlines_000 cs
      else a # unescape_newlines_000 (b # c # cs))"
| "unescape_newlines_000 cs = cs"

text \<open>The result of an \<open>async\<close> function that returns nothing: the events it caused
  and \<open>None\<close> when it resolved, \<open>Some e\<close> when it threw \<open>e\<close>. A missing
  \<open>GOOGLE_PRIVATE_KEY\<close> makes \<open>.replace\<close> a TypeError before any call.\<close>

definition saveToGoogleSheets ::
  "collaborators \<Rightarrow> jsstring \<Rightarrow> jsstring \<Rightarrow> jsstring \<Rightarrow> event list \<times> exn option" where
  "saveToGoogleSheets w name email phone =
     (case GOOGLE_PRIVATE_KEY (process_env w) of
        None \<Rightarrow> ([], Some TypeError)
      | Some key \<Rightarrow>
          (let auth = EnvCredentials (GOOGLE_CLIENT_EMAIL (process_env w)) (unescape_newlines key)
           in case getClient w auth of
                Some error \<Rightarrow> ([GetClient auth], Some error)
              | None \<Rightarrow>
                  (let call = SheetsAppend (GOOGLE_SHEET_ID (process_env w)) (js ''Sheet1!A1:C1'')
                                [JStr name, JStr email, JStr phone]
                   in case sheetsAppend w (GOOGLE_SHEET_ID (process_env w)) (js ''Sheet1!A1:C1'')
                             [JStr name, JStr email, JStr phone] of
                        Some error \<Rightarrow> ([GetClient auth, call], Some error)
                      | None \<Rightarrow> ([GetClient auth, call], None))))"

definition sendConfirmationEmail ::
  "collaborators \<Rightarrow> jsstring \<Rightarrow> jsstring \<Rightarrow> event list \<times> exn option" where
  "sendConfirmationEmail w recipientEmail userName =
     (let subject = js ''Thank you for visiting US Cryotherapy!'';
          text = js ''Thank you **'' @ userName @
                 js ''** for sharing your information with **US Cryotherapy**! You can now continue with your booking.'';
          html = js ''<p>Thank you <b>'' @ userName @
                 js ''</b> for sharing your information with <b>US Cryotherapy</b>! You can now continue with your booking.</p>'';
          mailOptions = \<lparr> mail_from = EMAIL_AUTH_USER (process_env w), mail_to = recipientEmail,
                          mail_subject = subject, mail_text = text, mail_html = html \<rparr>
      in case sendMail w mailOptions of
           Inl error \<Rightarrow> ([SendMail mailOptions], Some error)
         | Inr messageId \<Rightarrow> ([SendMail mailOptions], None))"

text \<open>part_000: the row carries the date and the time as well.\<close>

definition saveToGoogleSheets_000 ::
  "collaborators \<Rightarrow> jsstring \<Rightarrow> jsstring \<Rightarrow> jsstring \<Rightarrow> jsstring \<Rightarrow> jsstring \<Rightarrow>
   event list \<times> exn option" where
  "saveToGoogleSheets_000 w name email phone date time =
     (case GOOGLE_PRIVATE_KEY (process_env w) of
        None \<Rightarrow> ([], Some TypeError)
      | Some key \<Rightarrow>
          (let auth = EnvCredentials (GOOGLE_CLIENT_EMAIL (process_env w))
                        (unescape_newlines_000 key)
           in case getClient w auth of
                Some error \<Rightarrow> ([GetClient auth], Some error)
              | None \<Rightarrow>
                  (let call = SheetsAppend (GOOGLE_SHEET_ID (process_env w)) (js ''Sheet1!A1:E1'')
                                [JStr name, JStr email, JStr phone, JStr date, JStr time]
                   in case sheetsAppend w (GOOGLE_SHEET_ID (process_env w)) (js ''Sheet1!A1:E1'')
                             [JStr name, JStr email, JStr phone, JStr date, JStr time] of
                        Some error \<Rightarrow> ([GetClient auth, call], Some error)
                      | None \<Rightarrow> ([GetClient auth, call], None))))"

text \<open>part_001 and part_002: a fixed spreadsheet, the values as the request gave them;
  part_001 takes the credentials from the environment, part_002 from a key file.\<close>

definition saveToGoogleSheets_001 ::
  "collaborators \<Rightarrow> jsval \<Rightarrow> jsval \<Rightarrow> jsval \<Rightarrow> event list \<times> exn option" where
  "saveToGoogleSheets_001 w name email phone =
     (case GOOGLE_PRIVATE_KEY (process_env w) of
        None \<Rightarrow> ([], Some TypeError)
      | Some key \<Rightarrow>
          (let auth = EnvCredentials (GOOGLE_CLIENT_EMAIL (process_env w)) (unescape_newlines key);
               sheet = Some (js ''1XM1x2xZvWjF99P4o3TP1Od9rFXhozfx-ICKr-vbnRRc'')
           in case getClient w auth of
                Some error \<Rightarrow> ([GetClient auth], Some error)
              | None \<Rightarrow>
                  ([GetClient auth, SheetsAppend sheet (js ''Sheet1!A1:C1'') [name, email, phone]],
                   sheetsAppend w sheet (js ''Sheet1!A1:C1'') [name, email, phone])))"

definition saveToGoogleSheets_002 ::
  "collaborators \<Rightarrow> jsval \<Rightarrow> jsval \<Rightarrow> jsval \<Rightarrow> event list \<times> exn option" where
  "saveToGoogleSheets_002 w name email phone =
     (let auth = KeyFile (js ''credentials.json'');
          sheet = Some (js ''1XM1x2xZvWjF99P4o3TP1Od9rFXhozfx-ICKr-vbnRRc'')
      in case getClient w auth of
           Some error \<Rightarrow> ([GetClient auth], Some error)
         | None \<Rightarrow>
             ([GetClient auth, SheetsAppend sheet (js ''Sheet1!A1:C1'') [name, email, phone]],
              sheetsAppend w sheet (js ''Sheet1!A1:C1'') [name, email, phone]))"

section \<open>Intake handlers: POST /api/webhook\<close>

datatype payload = JsonBody jsval | TextBody jsstring

datatype response = Response (status: nat) (payload: payload)

text \<open>\<open>res.json(v)\<close> answers with status 200.\<close>

definition res_json :: "jsval \<Rightarrow> response" where
  "res_json v = Response 200 (JsonBody v)"

definition followupEventInput :: "string \<Rightarrow> jsstring \<times> jsval" where
  "followupEventInput event_name =
     (js ''followupEventInput'',
      JObj [(js ''name'', JStr (js event_name)), (js ''languageCode'', JStr (js ''en''))])"

definition missing_text :: jsstring where
  "missing_text = js ''I seem to be missing some information. Could you please provide your full name, email address, and phone number?''"

definition missing_response :: response where
  "missing_response =
     res_json (JObj [followupEventInput ''collect_user_info'',
                     (js ''fulfillmentText'', JStr missing_text)])"

definition invalid_text :: "jsstring \<Rightarrow> jsstring" where
  "invalid_text invalidFieldsMessage =
     js ''The information you provided for '' @ invalidFieldsMessage @
          js '' is not in a valid format. Could you please double-check and provide it again? For your name, please ensure you provide at least your first and last name. For the phone number, please ensure it's a valid international format.''"

definition invalid_response :: "jsstring \<Rightarrow> response" where
  "invalid_response invalidFieldsMessage =
     res_json (JObj [followupEventInput ''collect_user_info'',
                     (js ''fulfillmentText'', JStr (invalid_text invalidFieldsMessage))])"

definition success_response :: response where
  "success_response = res_json (JObj [followupEventInput ''trigger-booking-intent''])"

definition apology_text :: jsstring where
  "apology_text = js ''I'm sorry, I encountered an error while processing your information. Please try again later.''"

definition error_response :: response where
  "error_response = Response 500 (JsonBody (JObj [(js ''fulfillmentText'', JStr apology_text)]))"

text \<open>\<open>String(v || '').trim()\<close>\<close>

definition string_or_empty :: "jsval \<Rightarrow> exn + jsstring" where
  "string_or_empty v = String_js (if truthy v then v else JStr [])"

text \<open>The three fields as src/api/webhook.js and part_000 extract them from
  \<open>req.body.queryResult.parameters\<close>.\<close>

definition extract_fields :: "jsval \<Rightarrow> exn + (jsstring \<times> jsstring \<times> jsstring)" where
  "extract_fields body =
     (case get body ''queryResult'' of Inl e \<Rightarrow> Inl e | Inr queryResult \<Rightarrow>
      case get queryResult ''parameters'' of Inl e \<Rightarrow> Inl e | Inr params \<Rightarrow>
      case get params ''fullname'' of Inl e \<Rightarrow> Inl e | Inr nameParam \<Rightarrow>
      case (if typeof_js nameParam = ''object'' \<and> nameParam \<noteq> JNull
               \<and> typeof_js (get_opt nameParam ''name'') = ''string''
            then String_js (get_opt nameParam ''name'')
            else string_or_empty nameParam) of Inl e \<Rightarrow> Inl e | Inr name \<Rightarrow>
      case string_or_empty (get_opt params ''email'') of Inl e \<Rightarrow> Inl e | Inr email \<Rightarrow>
      case string_or_empty (get_opt params ''phone-number'') of Inl e \<Rightarrow> Inl e | Inr phone \<Rightarrow>
        Inr (trim name, trim email, trim phone))"

text \<open>The separator regular expressions: \<open>/,\s*$/\<close> in src/api/webhook.js; part_000
  writes \<open>/,\\s*$/\<close>, a comma, a backslash and any number of the letter \<open>s\<close>.\<close>

definition comma_ws_re :: rexp where
  "comma_ws_re = Seq (Chr CHR '','') (Star (Class isWhiteSpace))"

definition comma_backslash_s_re :: rexp where
  "comma_backslash_s_re =
     Seq (Chr CHR '','') (Seq (Class (\<lambda>c. c = 0x5C)) (Star (Chr CHR ''s'')))"

definition invalidFieldsMessage :: "rexp \<Rightarrow> bool \<Rightarrow> bool \<Rightarrow> bool \<Rightarrow> jsstring" where
  "invalidFieldsMessage separator nameValid emailValid phoneValid =
     replace_at_end separator (js ''.'')
       ((if \<not> nameValid then js ''your full name (at least two names), '' else []) @
        (if \<not> emailValid then js ''a valid email address, '' else []) @
        (if \<not> phoneValid then js ''a valid phone number, '' else []))"

text \<open>The handler of src/api/webhook.js. \<open>Inl\<close> is an exception that leaves the
  handler (its promise rejects and no response is written).\<close>

definition post_api_webhook ::
  "'p phoneUtil \<Rightarrow> collaborators \<Rightarrow> jsval \<Rightarrow> event list \<times> (exn + response)" where
  "post_api_webhook phoneUtil w body =
     (case extract_fields body of
        Inl e \<Rightarrow> ([], Inl e)
      | Inr (name, email, phone) \<Rightarrow>
          if name = [] \<or> email = [] \<or> phone = [] then ([], Inr missing_response)
          else
            (let nameValid = isValidName (JStr name);
                 emailValid = isValidEmail (JStr email)
             in case isValidPhoneNumber phoneUtil (JStr phone) of
                  Inl e \<Rightarrow> ([], Inl e)
                | Inr phoneValid \<Rightarrow>
                    if \<not> nameValid \<or> \<not> emailValid \<or> \<not> phoneValid
                    then ([], Inr (invalid_response
                                    (invalidFieldsMessage comma_ws_re nameValid emailValid phoneValid)))
                    else
                      (case saveToGoogleSheets w name email phone of
                         (saved, Some error) \<Rightarrow> (saved, Inr error_response)
                       | (saved, None) \<Rightarrow>
                           (case sendConfirmationEmail w email name of
                              (sent, Some error) \<Rightarrow> (saved @ sent, Inr error_response)
                            | (sent, None) \<Rightarrow> (saved @ sent, Inr success_response)))))"

text \<open>part_000: the same handler, with the date and the time of the local clock in the
  row. \<open>getMonth\<close> counts from 0.\<close>

record date =
  getFullYear :: nat
  getMonth :: nat
  getDate :: nat
  getHours :: nat
  getMinutes :: nat
  getSeconds :: nat

fun String_nat :: "nat \<Rightarrow> jsstring" where
  "String_nat n =
     (if n < 10 then [0x30 + int n] else String_nat (n div 10) @ [0x30 + int (n mod 10)])"

declare String_nat.simps [simp del]

text \<open>\<open>s.padStart(2, '0')\<close>\<close>

definition padStart2 :: "jsstring \<Rightarrow> jsstring" where
  "padStart2 s = replicate (2 - length s) 0x30 @ s"

definition currentDate :: "date \<Rightarrow> jsstring" where
  "currentDate now =
     (let year = String_nat (getFullYear now);
          month = padStart2 (String_nat (getMonth now + 1));
          day = padStart2 (String_nat (getDate now))
      in year @ js ''-'' @ month @ js ''-'' @ day)"

definition currentTime :: "date \<Rightarrow> jsstring" where
  "currentTime now =
     (let hours = padStart2 (String_nat (getHours now));
          minutes = padStart2 (String_nat (getMinutes now));
          seconds = padStart2 (String_nat (getSeconds now))
      in hours @ js '':'' @ minutes @ js '':'' @ seconds)"

definition post_api_webhook_000 ::
  "'p phoneUtil \<Rightarrow> collaborators \<Rightarrow> date \<Rightarrow> jsval \<Rightarrow> event list \<times> (exn + response)" where
  "post_api_webhook_000 phoneUtil w now body =
     (case extract_fields body of
        Inl e \<Rightarrow> ([], Inl e)
      | Inr (name, email, phone) \<Rightarrow>
          if name = [] \<or> email = [] \<or> phone = [] then ([], Inr missing_response)
          else
            (let nameValid = isValidName (JStr name);
                 emailValid = isValidEmail (JStr email)
             in case isValidPhoneNumber phoneUtil (JStr phone) of
                  Inl e \<Rightarrow> ([], Inl e)
                | Inr phoneValid \<Rightarrow>
                    if \<not> nameValid \<or> \<not> emailValid \<or> \<not> phoneValid
                    then ([], Inr (invalid_response
                                    (invalidFieldsMessage comma_backslash_s_re
                                       nameValid emailValid phoneValid)))
                    else
                      (case saveToGoogleSheets_000 w name email phone
                              (currentDate now) (currentTime now) of
                         (saved, Some error) \<Rightarrow> (saved, Inr error_response)
                       | (saved, None) \<Rightarrow>
                           (case sendConfirmationEmail w email name of
                              (sent, Some error) \<Rightarrow> (saved @ sent, Inr error_response)
                            | (sent, None) \<Rightarrow> (saved @ sent, Inr success_response)))))"

text \<open>part_001, first handler: the name is not trimmed, the e-mail address and the phone
  number are the parameters as they came, and the message of a failed validation is
  fixed.\<close>

definition generic_invalid_text :: jsstring where
  "generic_invalid_text =
     js ''The information you provided is not in a valid format. Can you please provide your full name, a valid email address, and a valid phone number?''"

definition generic_invalid_response :: response where
  "generic_invalid_response =
     res_json (JObj [followupEventInput ''collect_user_info'',
                     (js ''fulfillmentText'', JStr generic_invalid_text)])"

definition save_error_response :: response where
  "save_error_response =
     Response 500 (JsonBody (JObj [(js ''fulfillmentText'',
       JStr (js ''I'm sorry, I encountered an error while trying to save your information. Please try again later.''))]))"

definition extract_fields_001 :: "jsval \<Rightarrow> exn + (jsstring \<times> jsval \<times> jsval)" where
  "extract_fields_001 body =
     (case get body ''queryResult'' of Inl e \<Rightarrow> Inl e | Inr queryResult \<Rightarrow>
      case get queryResult ''parameters'' of Inl e \<Rightarrow> Inl e | Inr params \<Rightarrow>
      case get params ''fullname'' of Inl e \<Rightarrow> Inl e | Inr nameParam \<Rightarrow>
      case (if typeof_js nameParam = ''object'' \<and> nameParam \<noteq> JNull
               \<and> typeof_js (get_opt nameParam ''name'') = ''string''
            then String_js (get_opt nameParam ''name'')
            else string_or_empty nameParam) of Inl e \<Rightarrow> Inl e | Inr name \<Rightarrow>
        Inr (name, get_opt params ''email'', get_opt params ''phone-number''))"

definition post_api_webhook_001 ::
  "'p phoneUtil \<Rightarrow> collaborators \<Rightarrow> jsval \<Rightarrow> event list \<times> (exn + response)" where
  "post_api_webhook_001 phoneUtil w body =
     (case extract_fields_001 body of
        Inl e \<Rightarrow> ([], Inl e)
      | Inr (name, email, phone) \<Rightarrow>
          if name = [] \<or> \<not> truthy email \<or> \<not> truthy phone then ([], Inr missing_response)
          else
            (let nameValid = isValidName_001 (JStr name);
                 emailValid = isValidEmail email
             in case isValidPhoneNumber_001 phoneUtil phone of
                  Inl e \<Rightarrow> ([], Inl e)
                | Inr phoneValid \<Rightarrow>
                    if \<not> nameValid \<or> \<not> emailValid \<or> \<not> phoneValid
                    then ([], Inr generic_invalid_response)
                    else
                      (case saveToGoogleSheets_001 w (JStr name) email phone of
                         (saved, Some error) \<Rightarrow> (saved, Inr save_error_response)
                       | (saved, None) \<Rightarrow> (saved, Inr success_response))))"

text \<open>part_002: no check for missing fields and no message. The three validators are
  the operands of \<open>||\<close>: the first that fails ends the test, and an exception of one of
  them leaves the handler.\<close>

definition bare_collect_response :: response where
  "bare_collect_response = res_json (JObj [followupEventInput ''collect_user_info''])"

definition extract_fields_002 :: "jsval \<Rightarrow> exn + (jsval \<times> jsval \<times> jsval)" where
  "extract_fields_002 body =
     (case get body ''queryResult'' of Inl e \<Rightarrow> Inl e | Inr queryResult \<Rightarrow>
      case get queryResult ''parameters'' of Inl e \<Rightarrow> Inl e | Inr params \<Rightarrow>
      case get params ''fullname'' of Inl e \<Rightarrow> Inl e | Inr name \<Rightarrow>
        Inr (name, get_opt params ''email'', get_opt params ''phone-number''))"

definition post_api_webhook_002 ::
  "'p phoneUtil \<Rightarrow> collaborators \<Rightarrow> jsval \<Rightarrow> event list \<times> (exn + response)" where
  "post_api_webhook_002 phoneUtil w body =
     (case extract_fields_002 body of
        Inl e \<Rightarrow> ([], Inl e)
      | Inr (name, email, phone) \<Rightarrow>
          (case isValidName_002 name of Inl e \<Rightarrow> ([], Inl e) | Inr nameValid \<Rightarrow>
            (if \<not> nameValid then ([], Inr bare_collect_response)
             else
               (case isValidEmail_002 email of Inl e \<Rightarrow> ([], Inl e) | Inr emailValid \<Rightarrow>
                  (if \<not> emailValid then ([], Inr bare_collect_response)
                   else
                     (case isValidPhoneNumber_002 phoneUtil phone of Inl e \<Rightarrow> ([], Inl e)
                      | Inr phoneValid \<Rightarrow>
                          (if \<not> phoneValid then ([], Inr bare_collect_response)
                           else
                             (case saveToGoogleSheets_002 w name email phone of
                                (saved, Some error) \<Rightarrow>
                                  (saved, Inr (Response 500
                                     (TextBody (js ''Error saving to Google Sheets.''))))
                              | (saved, None) \<Rightarrow> (saved, Inr success_response)))))))))"

section \<open>The FAQ responder: src/src/index.js\<close>

definition mdash :: jsstring where
  "mdash = [0x2014]"

subsection \<open>String replacement\<close>

text \<open>
  \<open>s.replace(pattern, replacement)\<close> with a string pattern: the first occurrence is
  replaced. In the replacement \<open>$$\<close> stands for a dollar sign, \<open>$&\<close> for the matched
  text, \<open>$`\<close> for the text before it and \<open>$'\<close> for the text after it; with no
  capture group every other \<open>$\<close> stands for itself.
\<close>

fun starts_with :: "jsstring \<Rightarrow> jsstring \<Rightarrow> bool" where
  "starts_with [] s = True"
| "starts_with (p # ps) [] = False"
| "starts_with (p # ps) (c # cs) = (p = c \<and> starts_with ps cs)"

fun find_first :: "jsstring \<Rightarrow> jsstring \<Rightarrow> (jsstring \<times> jsstring) option" where
  "find_first pat [] = (if pat = [] then Some ([], []) else None)"
| "find_first pat (c # cs) =
     (if starts_with pat (c # cs) then Some ([], drop (length pat) (c # cs))
      else (case find_first pat cs of
              None \<Rightarrow> None
            | Some (before, after) \<Rightarrow> Some (c # before, after)))"

fun substitution :: "jsstring \<Rightarrow> jsstring \<Rightarrow> jsstring \<Rightarrow> jsstring \<Rightarrow> jsstring" where
  "substitution matched before after (c # d # r) =
     (if c = 0x24 \<and> d = 0x24 then 0x24 # substitution matched before after r
      else if c = 0x24 \<and> d = 0x26 then matched @ substitution matched before after r
      else if c = 0x24 \<and> d = 0x60 then before @ substitution matched before after r
      else if c = 0x24 \<and> d = 0x27 then after @ substitution matched before after r
      else c # substitution matched before after (d # r))"
| "substitution matched before after r = r"

definition replace :: "jsstring \<Rightarrow> jsstring \<Rightarrow> jsstring \<Rightarrow> jsstring" where
  "replace s pat replacement =
     (case find_first pat s of
        None \<Rightarrow> s
      | Some (before, after) \<Rightarrow> before @ substitution pat before after replacement @ after)"

subsection \<open>The facility data and its cache\<close>

record service =
  service_name :: jsstring
  booking_link :: jsstring

record center =
  services :: "service list"
  general_booking_link :: jsstring
  business_link :: jsstring
  hours :: jsstring

text \<open>An object with string keys, in the order of insertion (\<open>Object.keys\<close>).\<close>

type_synonym centers = "(jsstring \<times> center) list"

text \<open>The object literal that a refresh assigns to \<open>cachedCenters\<close>.\<close>

definition centers_literal :: centers where
  "centers_literal =
    [     (js ''davis'',
      \<lparr> services =
         [\<lparr> service_name = js ''whole-body cryotherapy'',
             booking_link = js ''https://hirefrederick.com/us-cryotherapy-davis/whole-body'' \<rparr>,
          \<lparr> service_name = js ''cryo facial'',
             booking_link = js ''https://hirefrederick.com/us-cryotherapy-davis/facial'' \<rparr>],
        general_booking_link = js ''https://hirefrederick.com/us-cryotherapy-davis'',
        business_link = js ''https://g.co/kgs/zufxqGm'',
        hours = js ''Mon-Fri: 10am-6pm, Sat: 10am-4pm, Sun: Closed'' \<rparr>),
     (js ''roseville'',
      \<lparr> services =
         [\<lparr> service_name = js ''whole-body cryotherapy'',
             booking_link = js ''https://hirefrederick.com/us-cryotherapy-roseville/whole-body'' \<rparr>,
          \<lparr> service_name = js ''localized treatments'',
             booking_link = js ''https://hirefrederick.com/us-cryotherapy-roseville/localized'' \<rparr>],
        general_booking_link = js ''https://hirefrederick.com/us-cryotherapy-roseville'',
        business_link = js ''https://g.co/kgs/d1SZgA2'',
        hours = js ''Mon-Fri: 9am-7pm, Sat: 9am-5pm, Sun: 10am-4pm'' \<rparr>),
     (js ''pleasanton'',
      \<lparr> services =
         [\<lparr> service_name = js ''cryo facial'',
             booking_link = js ''https://hirefrederick.com/us-cryotherapy-pleasanton/facial'' \<rparr>,
          \<lparr> service_name = js ''localized treatments'',
             booking_link = js ''https://hirefrederick.com/us-cryotherapy-pleasanton/localized'' \<rparr>],
        general_booking_link = js ''https://hirefrederick.com/us-cryotherapy-pleasanton'',
        business_link = js ''https://g.co/kgs/duuTmC6'',
        hours = js ''Mon-Fri: 10am-6pm, Sat: 10am-4pm, Sun: Closed'' \<rparr>),
     (js ''fort cavazos'',
      \<lparr> services =
         [\<lparr> service_name = js ''whole-body cryotherapy'',
             booking_link = js ''https://hirefrederick.com/us-cryotherapy-fort-cavazos/whole-body'' \<rparr>,
          \<lparr> service_name = js ''cryo facial'',
             booking_link = js ''https://hirefrederick.com/us-cryotherapy-fort-cavazos/facial'' \<rparr>,
          \<lparr> service_name = js ''localized treatments'',
             booking_link = js ''https://hirefrederick.com/us-cryotherapy-fort-cavazos/localized'' \<rparr>],
        general_booking_link = js ''https://hirefrederick.com/us-cryotherapy-fort-cavazos'',
        business_link = js ''https://g.co/kgs/dgh16ZW'',
        hours = js ''Mon-Fri: 8am-8pm, Sat-Sun: 9am-5pm'' \<rparr>)]"

text \<open>
  The module state. A refresh creates a new object each time: an object is the pair of its
  identity (the number of objects created before it) and its content, which nothing
  mutates. \<open>lastFetchTime\<close> is \<open>null\<close> or a time in milliseconds.
\<close>

record cache =
  created :: nat
  cachedCenters :: "(nat \<times> centers) option"
  lastFetchTime :: "int option"

definition initial_cache :: cache where
  "initial_cache = \<lparr> created = 0, cachedCenters = None, lastFetchTime = None \<rparr>"

definition CACHE_DURATION :: int where
  "CACHE_DURATION = 5 * 60 * 1000"

datatype faq_event = FetchCenters | Refresh

text \<open>
  \<open>fetchCenters()\<close>, given the two readings of \<open>Date.now()\<close> it may take: \<open>now\<close>
  in the test and \<open>later\<close> after the delay. In \<open>now - lastFetchTime\<close> a \<open>null\<close>
  counts as 0. The event \<open>Refresh\<close> stands for the delay, the assignments and the log
  line of the refresh path.
\<close>

definition refresh :: "cache \<Rightarrow> int \<Rightarrow> faq_event list \<times> (nat \<times> centers) \<times> cache" where
  "refresh st later =
     ([FetchCenters, Refresh], (created st, centers_literal),
      st \<lparr> created := created st + 1,
           cachedCenters := Some (created st, centers_literal),
           lastFetchTime := Some later \<rparr>)"

definition fetchCenters ::
  "cache \<Rightarrow> int \<Rightarrow> int \<Rightarrow> faq_event list \<times> (nat \<times> centers) \<times> cache" where
  "fetchCenters st now later =
     (case cachedCenters st of
        None \<Rightarrow> refresh st later
      | Some obj \<Rightarrow>
          if now - (case lastFetchTime st of None \<Rightarrow> 0 | Some t \<Rightarrow> t) > CACHE_DURATION
          then refresh st later
          else ([FetchCenters], obj, st))"

subsection \<open>The dispatcher: POST /webhook\<close>

definition bookingConfirmations :: "jsstring list" where
  "bookingConfirmations =
     [js ''Awesome! You can book your {service} at {center} here: {booking_link} You'' @ rsquo @ js ''re making a great choice'' @ mdash @ js ''let me know if you need anything else! '' @ smile,
      js ''Great pick! Book your {service} at {center} with this link: {booking_link} Any questions? I'' @ rsquo @ js ''m here to help!'',
      js ''You'' @ rsquo @ js ''re all set! Schedule your {service} at {center} here: {booking_link} Excited for you'' @ mdash @ js ''let me know if you need more assistance! '' @ smile]"

definition explanations :: "jsstring list" where
  "explanations =
     [js ''Cryotherapy is a fantastic way to boost recovery! It uses cold temps to reduce inflammation, lift your energy, and even improve your mood'' @ mdash @ js ''all in just a few minutes. Want to try it? I can help you book! '' @ smile,
      js ''Cryotherapy speeds up recovery with cold temperatures that ease inflammation and boost energy. It'' @ rsquo @ js ''s quick, safe, and feels amazing! Ready to book a session? '' @ smile,
      js ''With cryotherapy, you get less inflammation, better mood, and more energy in just minutes! It'' @ rsquo @ js ''s a wellness game-changer. Shall I help you book? '' @ smile]"

definition validCenters :: "jsstring list" where
  "validCenters = [js ''davis'', js ''roseville'', js ''pleasanton'', js ''fort cavazos'']"

text \<open>
  \<open>xs[Math.floor(Math.random() * xs.length)]\<close>, for the value \<open>u\<close> that
  \<open>Math.random()\<close> gave (it is at least 0 and below 1); outside the array the read gives
  \<open>undefined\<close>, here \<open>None\<close>.
\<close>

definition random_element :: "real \<Rightarrow> 'a list \<Rightarrow> 'a option" where
  "random_element u xs =
     (let i = \<lfloor>u * real (length xs)\<rfloor>
      in if 0 \<le> i \<and> i < int (length xs) then Some (xs ! nat i) else None)"

text \<open>\<open>p ? p.toLowerCase() : ''\<close>: a truthy value that is not a string has no callable
  \<open>toLowerCase\<close>.\<close>

definition lower_or_empty :: "(jsstring \<Rightarrow> jsstring) \<Rightarrow> jsval \<Rightarrow> exn + jsstring" where
  "lower_or_empty unicode p =
     (if truthy p then (case p of JStr s \<Rightarrow> Inr (toLowerCase unicode s) | _ \<Rightarrow> Inl TypeError)
      else Inr [])"

definition fulfillment :: "jsstring \<Rightarrow> response" where
  "fulfillment responseText = res_json (JObj [(js ''fulfillmentText'', JStr responseText)])"


definition curious_text :: jsstring where
  "curious_text =
     js ''We'' @ rsquo @ js ''ve got centers in Davis, Roseville, Pleasanton, and Fort Cavazos. Which one are you curious about?''"

text \<open>The branch of \<open>Book Appointment\<close>. Reading a property of an absent record, and
  calling \<open>replace\<close> on an absent template, is a TypeError.\<close>

definition book_appointment ::
  "(jsstring \<Rightarrow> jsstring) \<Rightarrow> centers \<Rightarrow> jsstring \<Rightarrow> jsstring \<Rightarrow> real \<Rightarrow> exn + jsstring" where
  "book_appointment unicode centers center service u =
     (let allCenters = map fst centers in
      if center = [] then
        (if service \<noteq> [] then
           (let availableCenters =
                  filter (\<lambda>c. case map_of centers c of
                                 None \<Rightarrow> False
                               | Some centerData \<Rightarrow>
                                   list_ex (\<lambda>s. toLowerCase unicode (service_name s) = service)
                                     (services centerData))
                    allCenters
            in Inr (if availableCenters \<noteq> []
                    then js ''Hi! I'' @ rsquo @ js ''m Jen. We offer '' @ service @ js '' at '' @ join (js '', '') availableCenters @ js ''. Which location works for you?''
                    else js ''Hi! I'' @ rsquo @ js ''m Jen. Sorry, '' @ service @ js '' isn'' @ rsquo @ js ''t available at our centers. Can I help with something else?''))
         else Inr (js ''Hi! I'' @ rsquo @ js ''m Jen, your US Cryotherapy assistant. Which center would you like to visit? We'' @ rsquo @ js ''ve got Davis, Roseville, Pleasanton, and Fort Cavazos!''))
      else
        (case map_of centers center of
           None \<Rightarrow> Inl TypeError
         | Some centerData \<Rightarrow>
             if service \<noteq> [] then
               (case find (\<lambda>s. toLowerCase unicode (service_name s) = service) (services centerData) of
                  Some serviceData \<Rightarrow>
                    (case random_element u bookingConfirmations of
                       None \<Rightarrow> Inl TypeError
                     | Some template \<Rightarrow>
                         Inr (replace (replace (replace template (js ''{service}'') service)
                                         (js ''{center}'') center)
                                (js ''{booking_link}'') (booking_link serviceData)))
                | None \<Rightarrow>
                    (let servicesList = join (js '', '') (map service_name (services centerData))
                     in Inr (js ''Sorry, '' @ service @ js '' isn'' @ rsquo @ js ''t offered at '' @ center @ js ''. We have '' @ servicesList @ js ''. Book here: '' @ general_booking_link centerData @ js '' Need help picking?'')))
             else
               (case random_element u bookingConfirmations of
                  None \<Rightarrow> Inl TypeError
                | Some template \<Rightarrow>
                    Inr (replace (replace (replace template (js ''{service}'') (js ''session''))
                                    (js ''{center}'') center)
                           (js ''{booking_link}'') (general_booking_link centerData)))))"

text \<open>The chain of intents. \<open>intent\<close> is any value: only a string can be equal to one
  of the names. \<open>explanations[i]\<close> outside the array is \<open>undefined\<close>, and the response
  then has no \<open>fulfillmentText\<close>.\<close>

definition dispatch ::
  "(jsstring \<Rightarrow> jsstring) \<Rightarrow> centers \<Rightarrow> jsval \<Rightarrow> jsstring \<Rightarrow> jsstring \<Rightarrow> real \<Rightarrow> exn + response" where
  "dispatch unicode centers intent center service u =
     (if intent = JStr (js ''Book Appointment'') then
        (case book_appointment unicode centers center service u of
           Inl e \<Rightarrow> Inl e
         | Inr responseText \<Rightarrow> Inr (fulfillment responseText))
      else if intent = JStr (js ''Explain Cryotherapy'') then
        (case random_element u explanations of
           None \<Rightarrow> Inr (res_json (JObj []))
         | Some responseText \<Rightarrow> Inr (fulfillment responseText))
      else if intent = JStr (js ''Reschedule Appointment'') then
        (case (if center \<noteq> [] then map_of centers center else None) of
           Some centerData \<Rightarrow>
             Inr (fulfillment (js ''To reschedule at '' @ center @ js '', please call them directly. Contact info here: '' @ business_link centerData @ js '' They'' @ rsquo @ js ''ll sort it out for you!''))
         | None \<Rightarrow>
             Inr (fulfillment (js ''Please call your center to reschedule. Tell me which one, and I'' @ rsquo @ js ''ll get you the contact link!'')))
      else if intent = JStr (js ''Address Concerns'') then
        Inr (fulfillment (js ''No stress! Cryotherapy is safe, fast (2-3 minutes), and super refreshing. Our staff guides you every step. Any specific worries I can ease? '' @ smile))
      else if intent = JStr (js ''Provide Center Information'') then
        (case (if center \<noteq> [] then map_of centers center else None) of
           Some centerData \<Rightarrow>
             (let servicesList = join (js '', '') (map service_name (services centerData))
              in Inr (fulfillment (js ''Here'' @ rsquo @ js ''s the scoop on '' @ center @ js '':'' @ [0xA] @ js ''- **Services**: '' @ servicesList @ [0xA] @ js ''- **Hours**: '' @ hours centerData @ [0xA] @ js ''- **More Info**: '' @ business_link centerData @ [0xA] @ js ''Want to book?'')))
         | None \<Rightarrow> Inr (fulfillment curious_text))
      else
        Inr (fulfillment (js ''Oops, I didn'' @ rsquo @ js ''t catch that! I can book appointments, explain cryotherapy, or share center info. What'' @ rsquo @ js ''s on your mind? '' @ smile)))"


text \<open>\<open>body.queryResult?.intent?.displayName || ''\<close> and
  \<open>body.queryResult?.parameters || {}\<close>, from \<open>body.queryResult\<close>.\<close>

definition intent_of :: "jsval \<Rightarrow> jsval" where
  "intent_of queryResult =
     (let displayName = get_opt (get_opt queryResult ''intent'') ''displayName''
      in if truthy displayName then displayName else JStr [])"

definition parameters_of :: "jsval \<Rightarrow> jsval" where
  "parameters_of queryResult =
     (let parameters = get_opt queryResult ''parameters''
      in if truthy parameters then parameters else JObj [])"




text \<open>The module states that requests can produce, from the state at start-up.\<close>

inductive reachable :: "cache \<Rightarrow> bool" where
  start: "reachable initial_cache"
| fetch: "reachable st \<Longrightarrow> fetchCenters st now later = (events, obj, st') \<Longrightarrow> reachable st'"

section \<open>Notions of the specification\<close>

text \<open>
  Notions for the rule about names: the digits and the punctuation of ASCII, a text of
  ASCII letters and white space only (the two classes of the regular expression), and
  the non-empty tokens that white space separates, which are the maximal runs of other
  characters.
\<close>

definition isAsciiDigit :: "int \<Rightarrow> bool" where
  "isAsciiDigit c \<longleftrightarrow> 0x30 \<le> c \<and> c \<le> 0x39"

definition isAsciiPunctuation :: "int \<Rightarrow> bool" where
  "isAsciiPunctuation c \<longleftrightarrow>
     (0x21 \<le> c \<and> c \<le> 0x2F) \<or> (0x3A \<le> c \<and> c \<le> 0x40) \<or>
     (0x5B \<le> c \<and> c \<le> 0x60) \<or> (0x7B \<le> c \<and> c \<le> 0x7E)"

definition ascii_letters_and_white_space_only :: "jsstring \<Rightarrow> bool" where
  "ascii_letters_and_white_space_only t = list_all (\<lambda>c. isAsciiLetter c \<or> isWhiteSpace c) t"

fun tokens :: "jsstring \<Rightarrow> jsstring list" where
  "tokens [] = []"
| "tokens (c # cs) =
     (if isWhiteSpace c then tokens cs
      else if cs = [] \<or> isWhiteSpace (hd cs) then [c] # tokens cs
      else (case tokens cs of [] \<Rightarrow> [[c]] | t # ts \<Rightarrow> (c # t) # ts))"

text \<open>
  The rule about names in the words of the specification: the trimmed text consists
  solely of alphabetic characters and spaces and has at least two tokens. A space is
  U+0020. The alphabetic characters are those of Unicode's property Alphabetic among the
  first 256 code points: the ASCII letters, U+00AA, U+00B5, U+00BA and the letters from
  U+00C0 to U+00FF (without the signs U+00D7 and U+00F7); no code unit above is
  classified here.
\<close>

definition isAlphabetic :: "int \<Rightarrow> bool" where
  "isAlphabetic c \<longleftrightarrow>
     isAsciiLetter c \<or> c = 0xAA \<or> c = 0xB5 \<or> c = 0xBA \<or>
     (0xC0 \<le> c \<and> c \<le> 0xD6) \<or> (0xD8 \<le> c \<and> c \<le> 0xF6) \<or> (0xF8 \<le> c \<and> c \<le> 0xFF)"

definition alphabetic_and_spaces_two_tokens :: "jsstring \<Rightarrow> bool" where
  "alphabetic_and_spaces_two_tokens s \<longleftrightarrow>
     list_all (\<lambda>c. isAlphabetic c \<or> c = 0x20) (trim s) \<and> 2 \<le> length (tokens (trim s))"

text \<open>
  The message of a failed validation as the specification words it: the phrases of the
  fields that failed, in the order name, e-mail address, phone number, separated by a
  comma and a space, and a period in place of the last separator.
\<close>

definition field_phrases :: "jsstring list" where
  "field_phrases =
     [js ''your full name (at least two names)'', js ''a valid email address'',
      js ''a valid phone number'']"

definition failed_phrases :: "bool \<Rightarrow> bool \<Rightarrow> bool \<Rightarrow> jsstring list" where
  "failed_phrases nameValid emailValid phoneValid =
     map snd (filter (\<lambda>(valid, phrase). \<not> valid)
       (zip [nameValid, emailValid, phoneValid] field_phrases))"

definition named_fields_message :: "bool \<Rightarrow> bool \<Rightarrow> bool \<Rightarrow> jsstring" where
  "named_fields_message nameValid emailValid phoneValid =
     join (js '', '') (failed_phrases nameValid emailValid phoneValid) @ js ''.''"

text \<open>\<open>text\<close> contains \<open>part\<close>.\<close>

definition includes_js :: "jsstring \<Rightarrow> jsstring \<Rightarrow> bool" where
  "includes_js text part = (find_first part text \<noteq> None)"

definition fulfillmentText :: "response \<Rightarrow> jsstring option" where
  "fulfillmentText res =
     (case payload res of
        JsonBody (JObj kvs) \<Rightarrow>
          (case map_of kvs (js ''fulfillmentText'') of Some (JStr s) \<Rightarrow> Some s | _ \<Rightarrow> None)
      | _ \<Rightarrow> None)"

text \<open>
  Persistence before notification, for the result of a handler and the result of its call
  of the persistence function: no mail is sent within the persistence call; when that
  call throws, its events are all the events of the handler and the response is the
  error response; when it resolves, the handler's events are those of the persistence
  call, which end with the write to the sheet, followed by the sending of the mail.
\<close>

definition persistence_first ::
  "event list \<times> (exn + response) \<Rightarrow> event list \<times> exn option \<Rightarrow> bool" where
  "persistence_first result save \<longleftrightarrow>
     (\<forall>mail. SendMail mail \<notin> set (fst save)) \<and>
     (case snd save of
        Some error \<Rightarrow> result = (fst save, Inr error_response)
      | None \<Rightarrow>
          (\<exists>auth sheet range row mail res.
             fst save = [GetClient auth, SheetsAppend sheet range row] \<and>
             result = ([GetClient auth, SheetsAppend sheet range row, SendMail mail], Inr res)))"

section \<open>Sample collaborators and requests\<close>

text \<open>
  Concrete collaborators, to run the handlers on: a phone library that takes a plus sign
  and digits and holds 8 to 15 digits valid, an environment with every variable set, and
  services that resolve (or a spreadsheet service that throws).
\<close>

definition sample_phoneUtil :: "jsstring phoneUtil" where
  "sample_phoneUtil =
     \<lparr> parse = (\<lambda>v region.
         case v of
           JStr (c # ds) \<Rightarrow>
             if c = 0x2B \<and> ds \<noteq> [] \<and> list_all isAsciiDigit ds then Inr ds
             else Inl (ExternalError ''The string supplied did not seem to be a phone number'')
         | _ \<Rightarrow> Inl (ExternalError ''The string supplied did not seem to be a phone number'')),
       isValidNumber = (\<lambda>ds. Inr (8 \<le> length ds \<and> length ds \<le> 15)) \<rparr>"

definition sample_env :: env where
  "sample_env =
     \<lparr> GOOGLE_CLIENT_EMAIL = Some (js ''svc@example.iam.gserviceaccount.com''),
       GOOGLE_PRIVATE_KEY = Some (js ''KEY''),
       GOOGLE_SHEET_ID = Some (js ''sheet''),
       EMAIL_AUTH_USER = Some (js ''desk@example.com''),
       EMAIL_AUTH_PASS = Some (js ''secret'') \<rparr>"

definition sample_services :: collaborators where
  "sample_services =
     \<lparr> process_env = sample_env,
       getClient = (\<lambda>auth. None),
       sheetsAppend = (\<lambda>sheet range row. None),
       sendMail = (\<lambda>mail. Inr (js ''<1@example.com>'')) \<rparr>"

definition sheets_down :: collaborators where
  "sheets_down =
     sample_services \<lparr> sheetsAppend := (\<lambda>sheet range row. Some (ExternalError ''quota'')) \<rparr>"

text \<open>Case tables that change nothing, for runs in which every string is ASCII.\<close>

definition ascii_only :: "jsstring \<Rightarrow> jsstring" where
  "ascii_only s = s"

definition sample_date :: date where
  "sample_date =
     \<lparr> getFullYear = 2024, getMonth = 0, getDate = 5,
       getHours = 9, getMinutes = 3, getSeconds = 7 \<rparr>"

definition intake_request :: "jsval \<Rightarrow> jsval \<Rightarrow> jsval \<Rightarrow> jsval" where
  "intake_request fullname email phone =
     JObj [(js ''queryResult'', JObj [(js ''parameters'',
       JObj [(js ''fullname'', fullname), (js ''email'', email),
             (js ''phone-number'', phone)])])]"

definition faq_request :: "jsval \<Rightarrow> jsval \<Rightarrow> jsval \<Rightarrow> jsval" where
  "faq_request displayName center service =
     JObj [(js ''queryResult'',
       JObj [(js ''intent'', JObj [(js ''displayName'', displayName)]),
             (js ''parameters'', JObj [(js ''center'', center), (js ''service'', service)])])]"

section \<open>Facts about the regular expressions\<close>


lemma matches_Zero: "matches Zero w = False"
  by (induction w) auto

lemma matches_Star_Class: "matches (Star (Class P)) w = list_all P w"
  by (induction w) (auto simp: matches_Zero)

lemma matches_Plus1_Class: "matches (Plus1 (Class P)) w = (w \<noteq> [] \<and> list_all P w)"
  by (cases w) (auto simp: Plus1_def matches_Star_Class matches_Zero)

section \<open>The name validator\<close>

lemma tokens_ws: "list_all isWhiteSpace g \<Longrightarrow> tokens (g @ s) = tokens s"
  by (induction g) auto

lemma tokens_piece:
  "p \<noteq> [] \<Longrightarrow> list_all (\<lambda>c. \<not> isWhiteSpace c) p \<Longrightarrow> r = [] \<or> isWhiteSpace (hd r) \<Longrightarrow>
   tokens (p @ r) = p # tokens r"
proof (induction p)
  case Nil then show ?case by simp
next
  case (Cons c p)
  show ?case
  proof (cases "p = []")
    case True
    with Cons.prems show ?thesis by auto
  next
    case False
    with Cons have "tokens (p @ r) = p # tokens r" by auto
    moreover have "\<not> isWhiteSpace (hd (p @ r))" using False Cons.prems by (cases p) auto
    ultimately show ?thesis using Cons.prems False by auto
  qed
qed

lemma split_ws_tokens: "filter (\<lambda>part. length part > 0) (split_ws s) = tokens s"
proof (induction s rule: split_ws.induct)
  case (1 s)
  define piece where "piece = takeWhile (\<lambda>c. \<not> isWhiteSpace c) s"
  define rest where "rest = dropWhile (\<lambda>c. \<not> isWhiteSpace c) s"
  have s: "s = piece @ rest" by (simp add: piece_def rest_def)
  have pall: "list_all (\<lambda>c. \<not> isWhiteSpace c) piece"
    unfolding piece_def list_all_iff by (auto dest: set_takeWhileD)
  have hd_rest: "rest = [] \<or> isWhiteSpace (hd rest)"
    using hd_dropWhile [of "\<lambda>c. \<not> isWhiteSpace c" s] by (auto simp: rest_def)
  have tp: "tokens s = (if piece = [] then tokens rest else piece # tokens rest)"
    using tokens_piece [OF _ pall hd_rest] s by auto
  show ?case
  proof (cases "rest = []")
    case True
    then show ?thesis
      using tp by (subst split_ws.simps) (auto simp: Let_def piece_def [symmetric] rest_def [symmetric])
  next
    case False
    define gap where "gap = takeWhile isWhiteSpace rest"
    have r: "rest = gap @ dropWhile isWhiteSpace rest" by (simp add: gap_def)
    have "list_all isWhiteSpace gap"
      unfolding gap_def list_all_iff by (auto dest: set_takeWhileD)
    from tokens_ws [OF this] r
    have tr: "tokens rest = tokens (dropWhile isWhiteSpace rest)" by metis
    have ih: "filter (\<lambda>part. length part > 0) (split_ws (dropWhile isWhiteSpace rest))
               = tokens (dropWhile isWhiteSpace rest)"
      using 1 [OF piece_def [unfolded piece_def] rest_def [unfolded rest_def]] False
      by (simp add: rest_def)
    show ?thesis
      using False tp tr ih
      by (subst split_ws.simps) (auto simp: Let_def piece_def [symmetric] rest_def [symmetric])
  qed
qed

lemma dropWhile_keeps: "x \<in> set xs \<Longrightarrow> \<not> P x \<Longrightarrow> x \<in> set (dropWhile P xs)"
  by (induction xs) auto

lemma trim_keeps: "c \<in> set s \<Longrightarrow> \<not> isWhiteSpace c \<Longrightarrow> c \<in> set (trim s)"
  unfolding trim_def by (simp add: dropWhile_keeps)

lemma tokens_nonempty_text: "tokens t \<noteq> [] \<Longrightarrow> t \<noteq> []"
  by (cases t) auto

lemma split_ws_tokens': "filter (\<lambda>part. part \<noteq> []) (split_ws s) = tokens s"
  using split_ws_tokens [of s] by simp

lemma isValidName_string:
  "isValidName (JStr s) =
     (ascii_letters_and_white_space_only (trim s) \<and> 2 \<le> length (tokens (trim s)))"
proof -
  have ne: "2 \<le> length (tokens (trim s)) \<Longrightarrow> trim s \<noteq> []"
    using tokens_nonempty_text [of "trim s"] by auto
  have "isValidName (JStr s) =
     (matches name_re (trim s) \<and> 2 \<le> length (tokens (trim s)))"
    by (simp add: isValidName_def Let_def split_ws_tokens')
  also have "\<dots> = (ascii_letters_and_white_space_only (trim s) \<and> 2 \<le> length (tokens (trim s)))"
    using ne by (auto simp: name_re_def matches_Plus1_Class ascii_letters_and_white_space_only_def)
  finally show ?thesis .
qed

lemma digit_or_punctuation_other:
  "isAsciiDigit c \<or> isAsciiPunctuation c \<Longrightarrow> \<not> isAsciiLetter c \<and> \<not> isWhiteSpace c"
  unfolding isAsciiDigit_def isAsciiPunctuation_def isAsciiLetter_def isWhiteSpace_def
  by auto

lemma isValidName_other_character:
  assumes "c \<in> set s" "\<not> isAsciiLetter c" "\<not> isWhiteSpace c"
  shows "isValidName (JStr s) = False"
proof -
  have "c \<in> set (trim s)" using assms by (simp add: trim_keeps)
  with assms have "\<not> ascii_letters_and_white_space_only (trim s)"
    by (auto simp: ascii_letters_and_white_space_only_def list_all_iff)
  then show ?thesis by (simp add: isValidName_string)
qed

text \<open>
  C4, as amended. \<open>isValidName\<close> of src/api/webhook.js (part_000 has the same body)
  returns false on every value that is not a string and on every string that contains a
  character which is neither an ASCII letter nor white space (the class \<open>\s\<close>), so on
  every string with a digit or a punctuation character; on a string it returns true
  exactly when the trimmed text consists of ASCII letters and white space only and has at
  least two non-empty tokens separated by white space. \<open>isValidName\<close> of part_002 has
  no type guard: on every value that is not a string it throws a TypeError.
\<close>

theorem isValidName_spec:
  "(typeof_js v \<noteq> ''string'' \<longrightarrow>
      isValidName v = False \<and> isValidName_002 v = Inl TypeError) \<and>
   ((\<exists>c\<in>set s. \<not> isAsciiLetter c \<and> \<not> isWhiteSpace c) \<longrightarrow> isValidName (JStr s) = False) \<and>
   ((\<exists>c\<in>set s. isAsciiDigit c \<or> isAsciiPunctuation c) \<longrightarrow> isValidName (JStr s) = False) \<and>
   (isValidName (JStr s) =
      (ascii_letters_and_white_space_only (trim s) \<and> 2 \<le> length (tokens (trim s))))"
proof (intro conjI impI)
  assume "typeof_js v \<noteq> ''string''"
  then show "isValidName v = False" "isValidName_002 v = Inl TypeError"
    by (cases v; simp add: isValidName_def isValidName_002_def)+
next
  assume "\<exists>c\<in>set s. \<not> isAsciiLetter c \<and> \<not> isWhiteSpace c"
  then show "isValidName (JStr s) = False"
    using isValidName_other_character by blast
next
  assume "\<exists>c\<in>set s. isAsciiDigit c \<or> isAsciiPunctuation c"
  then show "isValidName (JStr s) = False"
    using isValidName_other_character digit_or_punctuation_other by blast
next
  show "isValidName (JStr s) =
      (ascii_letters_and_white_space_only (trim s) \<and> 2 \<le> length (tokens (trim s)))"
    by (rule isValidName_string)
qed

theorem isValidName_spec_witness:
  "typeof_js (JNum False (js ''42'')) \<noteq> ''string'' \<and>
   isValidName (JNum False (js ''42'')) = False \<and>
   isValidName_002 (JNum False (js ''42'')) = Inl TypeError \<and>
   (\<exists>c\<in>set (js ''R2 D2''). isAsciiDigit c \<or> isAsciiPunctuation c) \<and>
   isValidName (JStr (js ''R2 D2'')) = False \<and>
   (\<exists>c\<in>set (js ''Jos'' @ [0xE9] @ js '' Garcia''). \<not> isAsciiLetter c \<and> \<not> isWhiteSpace c) \<and>
   isValidName (JStr (js ''Jos'' @ [0xE9] @ js '' Garcia'')) = False \<and>
   ascii_letters_and_white_space_only (trim (js '' Ada Lovelace '')) \<and>
   tokens (trim (js '' Ada Lovelace '')) = [js ''Ada'', js ''Lovelace''] \<and>
   isValidName (JStr (js '' Ada Lovelace ''))"
proof -
  note spec1 = isValidName_spec [of "JNum False (js ''42'')" "js ''R2 D2''"]
  note spec2 = isValidName_spec [of JNull "js '' Ada Lovelace ''"]
  note spec3 = isValidName_spec [of JNull "js ''Jos'' @ [0xE9] @ js '' Garcia''"]
  have a: "typeof_js (JNum False (js ''42'')) \<noteq> ''string''" by simp
  have b: "\<exists>c\<in>set (js ''R2 D2''). isAsciiDigit c \<or> isAsciiPunctuation c"
    by (simp add: js_def isAsciiDigit_def)
  have c: "ascii_letters_and_white_space_only (trim (js '' Ada Lovelace ''))" by code_simp
  have d: "tokens (trim (js '' Ada Lovelace '')) = [js ''Ada'', js ''Lovelace'']" by code_simp
  have e: "isValidName (JNum False (js ''42'')) = False \<and>
           isValidName_002 (JNum False (js ''42'')) = Inl TypeError"
    using spec1 [THEN conjunct1] a by (rule mp)
  have f: "isValidName (JStr (js ''R2 D2'')) = False"
    using spec1 [THEN conjunct2, THEN conjunct2, THEN conjunct1] b by (rule mp)
  have "2 \<le> length (tokens (trim (js '' Ada Lovelace '')))"
    unfolding d by simp
  with c have g: "isValidName (JStr (js '' Ada Lovelace ''))"
    unfolding spec2 [THEN conjunct2, THEN conjunct2, THEN conjunct2] by (rule conjI)
  have h: "\<exists>c\<in>set (js ''Jos'' @ [0xE9] @ js '' Garcia''). \<not> isAsciiLetter c \<and> \<not> isWhiteSpace c"
    by (simp add: js_def isAsciiLetter_def isWhiteSpace_def)
  have i: "isValidName (JStr (js ''Jos'' @ [0xE9] @ js '' Garcia'')) = False"
    using spec3 [THEN conjunct2, THEN conjunct1] h by (rule mp)
  show ?thesis
    by (intro conjI a b c d e [THEN conjunct1] e [THEN conjunct2] f g h i)
qed

text \<open>
  The rule as the specification words it does not hold of the code. \<open>isValidName\<close> of
  part_002 throws on a number and returns false on a name of four words. In
  src/api/webhook.js a name whose two words a tab separates is valid, although a tab is
  not a space, and the name \<open>Jos\<close>, U+00E9, \<open>Garcia\<close> is not valid, although U+00E9
  is an alphabetic character.
\<close>

theorem isValidName_counterexample:
  "isValidName_002 (JNum False (js ''42'')) = Inl TypeError \<and>
   alphabetic_and_spaces_two_tokens (js ''Ada Mary King Lovelace'') \<and>
   isValidName_002 (JStr (js ''Ada Mary King Lovelace'')) = Inr False \<and>
   \<not> alphabetic_and_spaces_two_tokens (js ''Ada'' @ [0x9] @ js ''Lovelace'') \<and>
   isValidName (JStr (js ''Ada'' @ [0x9] @ js ''Lovelace'')) = True \<and>
   alphabetic_and_spaces_two_tokens (js ''Jos'' @ [0xE9] @ js '' Garcia'') \<and>
   isValidName (JStr (js ''Jos'' @ [0xE9] @ js '' Garcia'')) = False"
  by (intro conjI; code_simp)

text \<open>The variants: part_001 and part_002 hold two or three words valid, each separated
  by one space.\<close>

lemma isValidName_variants:
  "isValidName (JStr (js ''Ada Mary King Lovelace''))"
  "\<not> isValidName_001 (JStr (js ''Ada Mary King Lovelace''))"
  "isValidName_002 (JStr (js ''Ada Lovelace'')) = Inr True"
  by code_simp+

section \<open>The phone validator\<close>

text \<open>
  C5. \<open>isValidPhoneNumber\<close> of src/api/webhook.js fails closed: it returns false for
  every value that is not a string and whenever the library's \<open>parse\<close> throws, and it
  always returns a boolean; no exception leaves it.
\<close>

theorem isValidPhoneNumber_fails_closed:
  "(typeof_js phone \<noteq> ''string'' \<longrightarrow> isValidPhoneNumber phoneUtil phone = Inr False) \<and>
   ((\<exists>error. parse phoneUtil phone None = Inl error) \<longrightarrow>
      isValidPhoneNumber phoneUtil phone = Inr False) \<and>
   (\<exists>valid. isValidPhoneNumber phoneUtil phone = Inr valid)"
  by (cases phone) (auto simp: isValidPhoneNumber_def split: sum.splits)

theorem isValidPhoneNumber_fails_closed_witness:
  "typeof_js (JNum False (js ''42'')) \<noteq> ''string'' \<and>
   isValidPhoneNumber sample_phoneUtil (JNum False (js ''42'')) = Inr False \<and>
   (\<exists>error. parse sample_phoneUtil (JStr (js ''call me'')) None = Inl error) \<and>
   isValidPhoneNumber sample_phoneUtil (JStr (js ''call me'')) = Inr False \<and>
   isValidPhoneNumber sample_phoneUtil (JStr (js ''+14155552671'')) = Inr True"
proof -
  note spec1 = isValidPhoneNumber_fails_closed [of "JNum False (js ''42'')" sample_phoneUtil]
  note spec2 = isValidPhoneNumber_fails_closed [of "JStr (js ''call me'')" sample_phoneUtil]
  have a: "typeof_js (JNum False (js ''42'')) \<noteq> ''string''" by simp
  have b: "\<exists>error. parse sample_phoneUtil (JStr (js ''call me'')) None = Inl error"
    by (simp add: sample_phoneUtil_def js_def)
  have c: "isValidPhoneNumber sample_phoneUtil (JStr (js ''+14155552671'')) = Inr True"
    by code_simp
  have d: "isValidPhoneNumber sample_phoneUtil (JNum False (js ''42'')) = Inr False"
    using spec1 [THEN conjunct1] a by (rule mp)
  have e: "isValidPhoneNumber sample_phoneUtil (JStr (js ''call me'')) = Inr False"
    using spec2 [THEN conjunct2, THEN conjunct1] b by (rule mp)
  show ?thesis
    by (intro conjI a b c d e)
qed

lemma isValidPhoneNumber_variants:
  "\<exists>valid. isValidPhoneNumber_001 phoneUtil phone = Inr valid"
  "\<exists>valid. isValidPhoneNumber_002 phoneUtil phone = Inr valid"
  "parse phoneUtil phone None = Inl error \<Longrightarrow> isValidPhoneNumber_002 phoneUtil phone = Inr False"
  by (cases phone; auto simp: isValidPhoneNumber_001_def isValidPhoneNumber_002_def split: sum.splits)+

section \<open>The intake handlers\<close>

lemma saveToGoogleSheets_events:
  "saveToGoogleSheets w name email phone = (saved, thrown) \<Longrightarrow>
     (\<forall>mail. SendMail mail \<notin> set saved) \<and>
     (thrown = None \<longrightarrow> (\<exists>auth sheet range row. saved = [GetClient auth, SheetsAppend sheet range row]))"
  by (auto simp: saveToGoogleSheets_def Let_def split: option.splits)

lemma saveToGoogleSheets_000_events:
  "saveToGoogleSheets_000 w name email phone date time = (saved, thrown) \<Longrightarrow>
     (\<forall>mail. SendMail mail \<notin> set saved) \<and>
     (thrown = None \<longrightarrow> (\<exists>auth sheet range row. saved = [GetClient auth, SheetsAppend sheet range row]))"
  by (auto simp: saveToGoogleSheets_000_def Let_def split: option.splits)

lemma sendConfirmationEmail_events:
  "\<exists>mail thrown. sendConfirmationEmail w recipientEmail userName = ([SendMail mail], thrown)"
  by (auto simp: sendConfirmationEmail_def Let_def split: sum.splits)

lemma post_api_webhook_valid:
  assumes "extract_fields body = Inr (name, email, phone)"
    and "name \<noteq> []" "email \<noteq> []" "phone \<noteq> []"
    and "isValidName (JStr name)" "isValidEmail (JStr email)"
    and "isValidPhoneNumber phoneUtil (JStr phone) = Inr True"
  shows "post_api_webhook phoneUtil w body =
     (case saveToGoogleSheets w name email phone of
        (saved, Some error) \<Rightarrow> (saved, Inr error_response)
      | (saved, None) \<Rightarrow>
          (case sendConfirmationEmail w email name of
             (sent, Some error) \<Rightarrow> (saved @ sent, Inr error_response)
           | (sent, None) \<Rightarrow> (saved @ sent, Inr success_response)))"
  using assms by (simp add: post_api_webhook_def Let_def)

lemma post_api_webhook_000_valid:
  assumes "extract_fields body = Inr (name, email, phone)"
    and "name \<noteq> []" "email \<noteq> []" "phone \<noteq> []"
    and "isValidName (JStr name)" "isValidEmail (JStr email)"
    and "isValidPhoneNumber phoneUtil (JStr phone) = Inr True"
  shows "post_api_webhook_000 phoneUtil w now body =
     (case saveToGoogleSheets_000 w name email phone (currentDate now) (currentTime now) of
        (saved, Some error) \<Rightarrow> (saved, Inr error_response)
      | (saved, None) \<Rightarrow>
          (case sendConfirmationEmail w email name of
             (sent, Some error) \<Rightarrow> (saved @ sent, Inr error_response)
           | (sent, None) \<Rightarrow> (saved @ sent, Inr success_response)))"
  using assms by (simp add: post_api_webhook_000_def Let_def)

text \<open>
  C1. In src/api/webhook.js and in part_000, a submission whose three fields are present
  and pass their validators makes the handler call the persistence function first; when
  that call throws, no mail is sent and the response is the status 500 with the fixed
  apology; when it resolves, the mail is sent after the write to the sheet.
\<close>

theorem persistence_before_notification:
  assumes "extract_fields body = Inr (name, email, phone)"
    and "name \<noteq> []" "email \<noteq> []" "phone \<noteq> []"
    and "isValidName (JStr name)" "isValidEmail (JStr email)"
    and "isValidPhoneNumber phoneUtil (JStr phone) = Inr True"
  shows "persistence_first (post_api_webhook phoneUtil w body)
           (saveToGoogleSheets w name email phone) \<and>
         persistence_first (post_api_webhook_000 phoneUtil w now body)
           (saveToGoogleSheets_000 w name email phone (currentDate now) (currentTime now)) \<and>
         error_response =
           Response 500 (JsonBody (JObj [(js ''fulfillmentText'', JStr apology_text)]))"
proof (intro conjI)
  obtain mail thrown where s: "sendConfirmationEmail w email name = ([SendMail mail], thrown)"
    using sendConfirmationEmail_events by blast
  obtain saved r where sv: "saveToGoogleSheets w name email phone = (saved, r)"
    by (cases "saveToGoogleSheets w name email phone")
  show "persistence_first (post_api_webhook phoneUtil w body)
           (saveToGoogleSheets w name email phone)"
    using saveToGoogleSheets_events [OF sv] s sv
    unfolding post_api_webhook_valid [OF assms] persistence_first_def
    by (cases r; cases thrown) auto
  obtain saved' r' where sv': "saveToGoogleSheets_000 w name email phone
      (currentDate now) (currentTime now) = (saved', r')"
    by (cases "saveToGoogleSheets_000 w name email phone (currentDate now) (currentTime now)")
  show "persistence_first (post_api_webhook_000 phoneUtil w now body)
           (saveToGoogleSheets_000 w name email phone (currentDate now) (currentTime now))"
    using saveToGoogleSheets_000_events [OF sv'] s sv'
    unfolding post_api_webhook_000_valid [OF assms] persistence_first_def
    by (cases r'; cases thrown) auto
  show "error_response =
           Response 500 (JsonBody (JObj [(js ''fulfillmentText'', JStr apology_text)]))"
    by (simp add: error_response_def)
qed

lemma sample_submission:
  "extract_fields (intake_request (JStr (js ''Ada Lovelace'')) (JStr (js ''ada@example.com''))
     (JStr (js ''+14155552671''))) = Inr (js ''Ada Lovelace'', js ''ada@example.com'', js ''+14155552671'')"
  "isValidName (JStr (js ''Ada Lovelace''))" "isValidEmail (JStr (js ''ada@example.com''))"
  "isValidPhoneNumber sample_phoneUtil (JStr (js ''+14155552671'')) = Inr True"
  "js ''Ada Lovelace'' \<noteq> []" "js ''ada@example.com'' \<noteq> []" "js ''+14155552671'' \<noteq> []"
  by code_simp+

theorem persistence_before_notification_witness:
  "persistence_first
     (post_api_webhook sample_phoneUtil sheets_down
        (intake_request (JStr (js ''Ada Lovelace'')) (JStr (js ''ada@example.com''))
           (JStr (js ''+14155552671''))))
     (saveToGoogleSheets sheets_down (js ''Ada Lovelace'') (js ''ada@example.com'')
        (js ''+14155552671'')) \<and>
   snd (saveToGoogleSheets sheets_down (js ''Ada Lovelace'') (js ''ada@example.com'')
        (js ''+14155552671'')) = Some (ExternalError ''quota'') \<and>
   persistence_first
     (post_api_webhook_000 sample_phoneUtil sample_services sample_date
        (intake_request (JStr (js ''Ada Lovelace'')) (JStr (js ''ada@example.com''))
           (JStr (js ''+14155552671''))))
     (saveToGoogleSheets_000 sample_services (js ''Ada Lovelace'') (js ''ada@example.com'')
        (js ''+14155552671'') (currentDate sample_date) (currentTime sample_date)) \<and>
   snd (saveToGoogleSheets_000 sample_services (js ''Ada Lovelace'') (js ''ada@example.com'')
        (js ''+14155552671'') (currentDate sample_date) (currentTime sample_date)) = None \<and>
   currentDate sample_date = js ''2024-01-05'' \<and> currentTime sample_date = js ''09:03:07''"
proof -
  note w1 = persistence_before_notification [OF sample_submission(1) sample_submission(5-7)
      sample_submission(2-4), of sheets_down sample_date]
  note w2 = persistence_before_notification [OF sample_submission(1) sample_submission(5-7)
      sample_submission(2-4), of sample_services sample_date]
  have a: "snd (saveToGoogleSheets sheets_down (js ''Ada Lovelace'') (js ''ada@example.com'')
        (js ''+14155552671'')) = Some (ExternalError ''quota'')"
    by code_simp
  have b: "snd (saveToGoogleSheets_000 sample_services (js ''Ada Lovelace'') (js ''ada@example.com'')
        (js ''+14155552671'') (currentDate sample_date) (currentTime sample_date)) = None"
    by code_simp
  have c: "currentDate sample_date = js ''2024-01-05''" "currentTime sample_date = js ''09:03:07''"
    by code_simp+
  show ?thesis
    by (intro conjI w1 [THEN conjunct1] w2 [THEN conjunct2, THEN conjunct1] a b c)
qed

lemma invalidFieldsMessage_named:
  "\<not> (nameValid \<and> emailValid \<and> phoneValid) \<Longrightarrow>
   invalidFieldsMessage comma_ws_re nameValid emailValid phoneValid =
     named_fields_message nameValid emailValid phoneValid"
  by (cases nameValid; cases emailValid; cases phoneValid; simp; code_simp)

lemma phrase_iff_failed:
  "includes_js (invalid_text (named_fields_message nameValid emailValid phoneValid))
     (field_phrases ! 0) = (\<not> nameValid)"
  "includes_js (invalid_text (named_fields_message nameValid emailValid phoneValid))
     (field_phrases ! 1) = (\<not> emailValid)"
  "includes_js (invalid_text (named_fields_message nameValid emailValid phoneValid))
     (field_phrases ! 2) = (\<not> phoneValid)"
  by (cases nameValid; cases emailValid; cases phoneValid; simp; code_simp)+

lemma missing_not_invalid:
  "missing_response \<noteq> invalid_response message"
  "missing_response \<noteq> generic_invalid_response"
  "missing_response \<noteq> bare_collect_response"
  by (simp_all add: missing_response_def invalid_response_def generic_invalid_response_def
      bare_collect_response_def res_json_def missing_text_def invalid_text_def
      generic_invalid_text_def js_def)

lemma missing_sample:
  "extract_fields (intake_request (JStr (js ''Ada Lovelace'')) (JStr []) (JStr (js ''+14155552671'')))
     = Inr (js ''Ada Lovelace'', [], js ''+14155552671'')"
  "extract_fields_001 (intake_request (JStr (js ''Ada Lovelace'')) (JStr []) (JStr (js ''+14155552671'')))
     = Inr (js ''Ada Lovelace'', JStr [], JStr (js ''+14155552671''))"
  by code_simp+

lemma responses_differ:
  "success_response \<noteq> missing_response"
  "Response 500 (TextBody text) \<noteq> missing_response"
  by (simp_all add: success_response_def missing_response_def res_json_def)

lemma post_api_webhook_002_responses:
  "post_api_webhook_002 phoneUtil w body = (events, Inr res) \<Longrightarrow>
     res = bare_collect_response \<or> res = success_response \<or>
     res = Response 500 (TextBody (js ''Error saving to Google Sheets.''))"
  by (auto simp: post_api_webhook_002_def split: sum.splits prod.splits if_splits option.splits)

text \<open>
  C2, as amended. In src/api/webhook.js, in part_000 and in the first handler of
  part_001, a request in which, after extraction, the name, the e-mail address or the
  phone number is empty or absent gets the missing-field directive: the event
  \<open>collect_user_info\<close> with the prompt for the missing information, which is neither
  directive of a failed validation. No validator runs and no collaborator is called.
  The handler of part_002 never returns the missing-field directive, and a request whose
  name is the empty string gets from it the directive \<open>collect_user_info\<close> without any
  prompt.
\<close>

theorem missing_field_directive:
  "(extract_fields body = Inr (name, email, phone) \<and> (name = [] \<or> email = [] \<or> phone = []) \<longrightarrow>
      post_api_webhook phoneUtil w body = ([], Inr missing_response) \<and>
      post_api_webhook_000 phoneUtil w now body = ([], Inr missing_response)) \<and>
   (extract_fields_001 body = Inr (name, emailParam, phoneParam) \<and>
      (name = [] \<or> \<not> truthy emailParam \<or> \<not> truthy phoneParam) \<longrightarrow>
      post_api_webhook_001 phoneUtil w body = ([], Inr missing_response)) \<and>
   missing_response =
     res_json (JObj [followupEventInput ''collect_user_info'',
                     (js ''fulfillmentText'', JStr missing_text)]) \<and>
   (\<forall>message. missing_response \<noteq> invalid_response message) \<and>
   missing_response \<noteq> generic_invalid_response \<and>
   (\<forall>events. post_api_webhook_002 phoneUtil w body \<noteq> (events, Inr missing_response)) \<and>
   (extract_fields_002 body = Inr (JStr [], emailParam, phoneParam) \<longrightarrow>
      post_api_webhook_002 phoneUtil w body = ([], Inr bare_collect_response) \<and>
      fulfillmentText bare_collect_response = None)"
proof (intro conjI impI allI missing_not_invalid)
  show "missing_response =
     res_json (JObj [followupEventInput ''collect_user_info'',
                     (js ''fulfillmentText'', JStr missing_text)])"
    by (simp add: missing_response_def)
  show "post_api_webhook_002 phoneUtil w body \<noteq> (events, Inr missing_response)" for events
    using post_api_webhook_002_responses [of phoneUtil w body events missing_response]
      missing_not_invalid(3) responses_differ
    by metis
  show "fulfillmentText bare_collect_response = None"
    by code_simp
  assume "extract_fields_002 body = Inr (JStr [], emailParam, phoneParam)"
  then show "post_api_webhook_002 phoneUtil w body = ([], Inr bare_collect_response)"
    by (simp add: post_api_webhook_002_def isValidName_002_def trim_def name23_re_def
        Plus1_def Rep12_def)
qed (auto simp: post_api_webhook_def post_api_webhook_000_def post_api_webhook_001_def)

lemma empty_name_sample:
  "extract_fields_002
     (intake_request (JStr []) (JStr (js ''ada@example.com'')) (JStr (js ''+14155552671'')))
     = Inr (JStr [], JStr (js ''ada@example.com''), JStr (js ''+14155552671''))"
  by code_simp

theorem missing_field_directive_witness:
  "extract_fields (intake_request (JStr (js ''Ada Lovelace'')) (JStr []) (JStr (js ''+14155552671'')))
     = Inr (js ''Ada Lovelace'', [], js ''+14155552671'') \<and>
   post_api_webhook sample_phoneUtil sample_services
     (intake_request (JStr (js ''Ada Lovelace'')) (JStr []) (JStr (js ''+14155552671'')))
     = ([], Inr missing_response) \<and>
   post_api_webhook_000 sample_phoneUtil sample_services sample_date
     (intake_request (JStr (js ''Ada Lovelace'')) (JStr []) (JStr (js ''+14155552671'')))
     = ([], Inr missing_response) \<and>
   extract_fields_001 (intake_request (JStr (js ''Ada Lovelace'')) (JStr []) (JStr (js ''+14155552671'')))
     = Inr (js ''Ada Lovelace'', JStr [], JStr (js ''+14155552671'')) \<and>
   post_api_webhook_001 sample_phoneUtil sample_services
     (intake_request (JStr (js ''Ada Lovelace'')) (JStr []) (JStr (js ''+14155552671'')))
     = ([], Inr missing_response) \<and>
   extract_fields_002
     (intake_request (JStr []) (JStr (js ''ada@example.com'')) (JStr (js ''+14155552671'')))
     = Inr (JStr [], JStr (js ''ada@example.com''), JStr (js ''+14155552671'')) \<and>
   post_api_webhook_002 sample_phoneUtil sample_services
     (intake_request (JStr []) (JStr (js ''ada@example.com'')) (JStr (js ''+14155552671'')))
     = ([], Inr bare_collect_response)"
proof -
  note spec = missing_field_directive [of
      "intake_request (JStr (js ''Ada Lovelace'')) (JStr []) (JStr (js ''+14155552671''))"
      "js ''Ada Lovelace''" "[]" "js ''+14155552671''" sample_phoneUtil sample_services
      sample_date "JStr []" "JStr (js ''+14155552671'')"]
  note spec2 = missing_field_directive [of
      "intake_request (JStr []) (JStr (js ''ada@example.com'')) (JStr (js ''+14155552671''))"
      "[]" "[]" "[]" sample_phoneUtil sample_services
      sample_date "JStr (js ''ada@example.com'')" "JStr (js ''+14155552671'')"]
  have a: "post_api_webhook sample_phoneUtil sample_services
     (intake_request (JStr (js ''Ada Lovelace'')) (JStr []) (JStr (js ''+14155552671'')))
     = ([], Inr missing_response) \<and>
   post_api_webhook_000 sample_phoneUtil sample_services sample_date
     (intake_request (JStr (js ''Ada Lovelace'')) (JStr []) (JStr (js ''+14155552671'')))
     = ([], Inr missing_response)"
    using spec [THEN conjunct1] missing_sample(1) by simp
  have b: "post_api_webhook_001 sample_phoneUtil sample_services
     (intake_request (JStr (js ''Ada Lovelace'')) (JStr []) (JStr (js ''+14155552671'')))
     = ([], Inr missing_response)"
    using spec [THEN conjunct2, THEN conjunct1] missing_sample(2) by simp
  have c: "post_api_webhook_002 sample_phoneUtil sample_services
     (intake_request (JStr []) (JStr (js ''ada@example.com'')) (JStr (js ''+14155552671'')))
     = ([], Inr bare_collect_response)"
    using spec2 [THEN conjunct2, THEN conjunct2, THEN conjunct2, THEN conjunct2,
        THEN conjunct2, THEN conjunct2] empty_name_sample by simp
  show ?thesis
    by (intro conjI missing_sample a [THEN conjunct1] a [THEN conjunct2] b empty_name_sample c)
qed

text \<open>
  The handler of part_002 has no test for missing fields: an empty name goes to the
  validators, and the response is the directive without any prompt.
\<close>

theorem missing_field_counterexample:
  "extract_fields_002
     (intake_request (JStr []) (JStr (js ''ada@example.com'')) (JStr (js ''+14155552671'')))
     = Inr (JStr [], JStr (js ''ada@example.com''), JStr (js ''+14155552671'')) \<and>
   post_api_webhook_002 sample_phoneUtil sample_services
     (intake_request (JStr []) (JStr (js ''ada@example.com'')) (JStr (js ''+14155552671'')))
     = ([], Inr bare_collect_response) \<and>
   bare_collect_response \<noteq> missing_response \<and>
   fulfillmentText bare_collect_response = None"
proof (intro conjI)
  show "bare_collect_response \<noteq> missing_response"
    using missing_not_invalid(3) by simp
qed code_simp+

text \<open>An absent name makes \<open>name.trim()\<close> throw there, and the handler writes no
  response.\<close>

lemma missing_name_002:
  "post_api_webhook_002 sample_phoneUtil sample_services
     (intake_request JUndefined (JStr (js ''ada@example.com'')) (JStr (js ''+14155552671'')))
     = ([], Inl TypeError)"
  by code_simp

text \<open>
  C3, as amended. In src/api/webhook.js, a request whose three fields are present and of
  which at least one fails its validator gets the directive \<open>collect_user_info\<close> with a
  message that names exactly the fields that failed: the phrases of the failed fields in
  the order name, e-mail address, phone number, the separator after the last one
  replaced by a period; a field's phrase is in the text exactly when its validator
  returned false. In the first handler of part_001 the message is one fixed text.
\<close>

theorem invalid_field_message:
  "(extract_fields body = Inr (name, email, phone) \<and> name \<noteq> [] \<and> email \<noteq> [] \<and> phone \<noteq> [] \<and>
    isValidPhoneNumber phoneUtil (JStr phone) = Inr phoneValid \<and>
    \<not> (isValidName (JStr name) \<and> isValidEmail (JStr email) \<and> phoneValid) \<longrightarrow>
      post_api_webhook phoneUtil w body =
        ([], Inr (res_json (JObj [followupEventInput ''collect_user_info'',
           (js ''fulfillmentText'',
            JStr (invalid_text (named_fields_message
                    (isValidName (JStr name)) (isValidEmail (JStr email)) phoneValid)))])))) \<and>
   includes_js (invalid_text (named_fields_message nameValid emailValid phoneValid'))
     (field_phrases ! 0) = (\<not> nameValid) \<and>
   includes_js (invalid_text (named_fields_message nameValid emailValid phoneValid'))
     (field_phrases ! 1) = (\<not> emailValid) \<and>
   includes_js (invalid_text (named_fields_message nameValid emailValid phoneValid'))
     (field_phrases ! 2) = (\<not> phoneValid') \<and>
   (extract_fields_001 body = Inr (name1, email1, phone1) \<and>
    name1 \<noteq> [] \<and> truthy email1 \<and> truthy phone1 \<and>
    isValidPhoneNumber_001 phoneUtil phone1 = Inr phoneValid1 \<and>
    \<not> (isValidName_001 (JStr name1) \<and> isValidEmail email1 \<and> phoneValid1) \<longrightarrow>
      post_api_webhook_001 phoneUtil w body =
        ([], Inr (res_json (JObj [followupEventInput ''collect_user_info'',
           (js ''fulfillmentText'', JStr generic_invalid_text)]))))"
proof (intro conjI impI)
  assume a: "extract_fields body = Inr (name, email, phone) \<and> name \<noteq> [] \<and> email \<noteq> [] \<and>
    phone \<noteq> [] \<and> isValidPhoneNumber phoneUtil (JStr phone) = Inr phoneValid \<and>
    \<not> (isValidName (JStr name) \<and> isValidEmail (JStr email) \<and> phoneValid)"
  then have "invalidFieldsMessage comma_ws_re (isValidName (JStr name)) (isValidEmail (JStr email))
       phoneValid
     = named_fields_message (isValidName (JStr name)) (isValidEmail (JStr email)) phoneValid"
    by (intro invalidFieldsMessage_named) simp
  with a show "post_api_webhook phoneUtil w body =
        ([], Inr (res_json (JObj [followupEventInput ''collect_user_info'',
           (js ''fulfillmentText'',
            JStr (invalid_text (named_fields_message
                    (isValidName (JStr name)) (isValidEmail (JStr email)) phoneValid)))])))"
    by (auto simp: post_api_webhook_def Let_def invalid_response_def)
next
  assume "extract_fields_001 body = Inr (name1, email1, phone1) \<and>
    name1 \<noteq> [] \<and> truthy email1 \<and> truthy phone1 \<and>
    isValidPhoneNumber_001 phoneUtil phone1 = Inr phoneValid1 \<and>
    \<not> (isValidName_001 (JStr name1) \<and> isValidEmail email1 \<and> phoneValid1)"
  then show "post_api_webhook_001 phoneUtil w body =
        ([], Inr (res_json (JObj [followupEventInput ''collect_user_info'',
           (js ''fulfillmentText'', JStr generic_invalid_text)])))"
    by (auto simp: post_api_webhook_001_def Let_def generic_invalid_response_def)
qed (rule phrase_iff_failed)+

lemma invalid_sample:
  "extract_fields (intake_request (JStr (js ''Cher'')) (JStr (js ''ada@example.com'')) (JStr (js ''+1415'')))
     = Inr (js ''Cher'', js ''ada@example.com'', js ''+1415'')"
  "extract_fields_001 (intake_request (JStr (js ''Cher'')) (JStr (js ''ada@example.com'')) (JStr (js ''+1415'')))
     = Inr (js ''Cher'', JStr (js ''ada@example.com''), JStr (js ''+1415''))"
  "isValidName (JStr (js ''Cher'')) = False" "isValidEmail (JStr (js ''ada@example.com'')) = True"
  "isValidPhoneNumber sample_phoneUtil (JStr (js ''+1415'')) = Inr False"
  "isValidName_001 (JStr (js ''Cher'')) = False"
  "isValidPhoneNumber_001 sample_phoneUtil (JStr (js ''+1415'')) = Inr False"
  "js ''Cher'' \<noteq> []" "js ''ada@example.com'' \<noteq> []" "js ''+1415'' \<noteq> []"
  "truthy (JStr (js ''ada@example.com''))" "truthy (JStr (js ''+1415''))"
  by code_simp+

theorem invalid_field_message_witness:
  "extract_fields (intake_request (JStr (js ''Cher'')) (JStr (js ''ada@example.com'')) (JStr (js ''+1415'')))
     = Inr (js ''Cher'', js ''ada@example.com'', js ''+1415'') \<and>
   isValidName (JStr (js ''Cher'')) = False \<and> isValidEmail (JStr (js ''ada@example.com'')) = True \<and>
   isValidPhoneNumber sample_phoneUtil (JStr (js ''+1415'')) = Inr False \<and>
   post_api_webhook sample_phoneUtil sample_services
     (intake_request (JStr (js ''Cher'')) (JStr (js ''ada@example.com'')) (JStr (js ''+1415'')))
     = ([], Inr (res_json (JObj [followupEventInput ''collect_user_info'',
           (js ''fulfillmentText'', JStr (invalid_text (named_fields_message False True False)))]))) \<and>
   named_fields_message False True False
     = js ''your full name (at least two names), a valid phone number.'' \<and>
   post_api_webhook_001 sample_phoneUtil sample_services
     (intake_request (JStr (js ''Cher'')) (JStr (js ''ada@example.com'')) (JStr (js ''+1415'')))
     = ([], Inr (res_json (JObj [followupEventInput ''collect_user_info'',
           (js ''fulfillmentText'', JStr generic_invalid_text)])))"
proof -
  note spec = invalid_field_message [of
      "intake_request (JStr (js ''Cher'')) (JStr (js ''ada@example.com'')) (JStr (js ''+1415''))"
      "js ''Cher''" "js ''ada@example.com''" "js ''+1415''" sample_phoneUtil False
      sample_services False True False
      "js ''Cher''" "JStr (js ''ada@example.com'')" "JStr (js ''+1415'')" False]
  have a: "post_api_webhook sample_phoneUtil sample_services
     (intake_request (JStr (js ''Cher'')) (JStr (js ''ada@example.com'')) (JStr (js ''+1415'')))
     = ([], Inr (res_json (JObj [followupEventInput ''collect_user_info'',
           (js ''fulfillmentText'', JStr (invalid_text (named_fields_message False True False)))])))"
    using spec [THEN conjunct1] invalid_sample by simp
  have b: "post_api_webhook_001 sample_phoneUtil sample_services
     (intake_request (JStr (js ''Cher'')) (JStr (js ''ada@example.com'')) (JStr (js ''+1415'')))
     = ([], Inr (res_json (JObj [followupEventInput ''collect_user_info'',
           (js ''fulfillmentText'', JStr generic_invalid_text)])))"
    using spec [THEN conjunct2, THEN conjunct2, THEN conjunct2, THEN conjunct2] invalid_sample
    by simp
  have c: "named_fields_message False True False
     = js ''your full name (at least two names), a valid phone number.''"
    by code_simp
  show ?thesis
    by (intro conjI invalid_sample(1,3,4,5) a b c)
qed

text \<open>
  The first handler of part_001 answers a failed validation of the name alone with its
  fixed text, which is not the text that names the name only, and in which the phrase of
  the e-mail address stands although that validator returned true.
\<close>

theorem invalid_field_counterexample:
  "post_api_webhook_001 sample_phoneUtil sample_services
     (intake_request (JStr (js ''Cher'')) (JStr (js ''ada@example.com''))
        (JStr (js ''+14155552671'')))
     = ([], Inr generic_invalid_response) \<and>
   isValidName_001 (JStr (js ''Cher'')) = False \<and>
   isValidEmail (JStr (js ''ada@example.com'')) = True \<and>
   isValidPhoneNumber_001 sample_phoneUtil (JStr (js ''+14155552671'')) = Inr True \<and>
   fulfillmentText generic_invalid_response = Some generic_invalid_text \<and>
   generic_invalid_text \<noteq> invalid_text (named_fields_message False True True) \<and>
   includes_js generic_invalid_text (field_phrases ! 1) = True"
  by (intro conjI; code_simp)

text \<open>part_000 writes the separator expression with a doubled backslash; it matches
  nothing in the message, and the separator stays.\<close>

lemma invalidFieldsMessage_000:
  "invalidFieldsMessage comma_backslash_s_re False True True
     = js ''your full name (at least two names), ''"
  by code_simp

section \<open>The facility cache\<close>

lemma reachable_cached:
  "reachable st \<Longrightarrow> cachedCenters st = Some (identity, centers) \<Longrightarrow>
     identity < created st \<and> centers = centers_literal"
proof (induction arbitrary: identity centers rule: reachable.induct)
  case start
  then show ?case by (simp add: initial_cache_def)
next
  case (fetch st now later events obj st')
  then show ?case
    by (auto simp: fetchCenters_def refresh_def split: option.splits if_splits)
qed

text \<open>
  C6. A call of \<open>fetchCenters\<close> made while a mapping is cached and the time since the
  last refresh does not exceed the cache duration returns the cached object itself and
  leaves the state as it is, without the refresh path; so does the second of two calls.
  A call made when nothing is cached, or after the duration has passed, runs the refresh:
  it returns a new object holding the whole literal, makes it the cached one and sets the
  time of the last refresh.
\<close>

theorem facility_cache:
  "(cachedCenters st = Some obj \<and>
      now - (case lastFetchTime st of None \<Rightarrow> 0 | Some t \<Rightarrow> t) \<le> CACHE_DURATION \<longrightarrow>
      fetchCenters st now later = ([FetchCenters], obj, st)) \<and>
   (fetchCenters st now later = (events1, obj1, st1) \<and> lastFetchTime st1 = Some t1 \<and>
      now2 - t1 \<le> CACHE_DURATION \<longrightarrow>
      fetchCenters st1 now2 later2 = ([FetchCenters], obj1, st1)) \<and>
   (cachedCenters st = None \<or>
      now - (case lastFetchTime st of None \<Rightarrow> 0 | Some t \<Rightarrow> t) > CACHE_DURATION \<longrightarrow>
      fetchCenters st now later =
        ([FetchCenters, Refresh], (created st, centers_literal),
         st \<lparr> created := created st + 1,
              cachedCenters := Some (created st, centers_literal),
              lastFetchTime := Some later \<rparr>)) \<and>
   (reachable st \<and> cachedCenters st = Some (identity, centers) \<longrightarrow> created st \<noteq> identity) \<and>
   CACHE_DURATION = 300000"
proof (intro conjI impI)
  assume "cachedCenters st = Some obj \<and>
      now - (case lastFetchTime st of None \<Rightarrow> 0 | Some t \<Rightarrow> t) \<le> CACHE_DURATION"
  then show "fetchCenters st now later = ([FetchCenters], obj, st)"
    by (auto simp: fetchCenters_def)
next
  assume a: "fetchCenters st now later = (events1, obj1, st1) \<and> lastFetchTime st1 = Some t1 \<and>
      now2 - t1 \<le> CACHE_DURATION"
  then have "cachedCenters st1 = Some obj1"
    by (auto simp: fetchCenters_def refresh_def split: option.splits if_splits)
  with a show "fetchCenters st1 now2 later2 = ([FetchCenters], obj1, st1)"
    by (auto simp: fetchCenters_def)
next
  assume "cachedCenters st = None \<or>
      now - (case lastFetchTime st of None \<Rightarrow> 0 | Some t \<Rightarrow> t) > CACHE_DURATION"
  then show "fetchCenters st now later =
        ([FetchCenters, Refresh], (created st, centers_literal),
         st \<lparr> created := created st + 1,
              cachedCenters := Some (created st, centers_literal),
              lastFetchTime := Some later \<rparr>)"
    by (auto simp: fetchCenters_def refresh_def split: option.splits)
next
  assume "reachable st \<and> cachedCenters st = Some (identity, centers)"
  then show "created st \<noteq> identity"
    using reachable_cached [of st identity centers] by auto
next
  show "CACHE_DURATION = 300000" by (simp add: CACHE_DURATION_def)
qed

theorem facility_cache_witness:
  "fetchCenters initial_cache 1000 2000 =
     ([FetchCenters, Refresh], (0, centers_literal),
      \<lparr> created = 1, cachedCenters = Some (0, centers_literal), lastFetchTime = Some 2000 \<rparr>) \<and>
   fetchCenters
     \<lparr> created = 1, cachedCenters = Some (0, centers_literal), lastFetchTime = Some 2000 \<rparr>
     302000 303000 =
     ([FetchCenters], (0, centers_literal),
      \<lparr> created = 1, cachedCenters = Some (0, centers_literal), lastFetchTime = Some 2000 \<rparr>) \<and>
   fetchCenters
     \<lparr> created = 1, cachedCenters = Some (0, centers_literal), lastFetchTime = Some 2000 \<rparr>
     302001 303001 =
     ([FetchCenters, Refresh], (1, centers_literal),
      \<lparr> created = 2, cachedCenters = Some (1, centers_literal), lastFetchTime = Some 303001 \<rparr>) \<and>
   reachable
     \<lparr> created = 1, cachedCenters = Some (0, centers_literal), lastFetchTime = Some 2000 \<rparr> \<and>
   created
     \<lparr> created = 1, cachedCenters = Some (0, centers_literal), lastFetchTime = Some 2000 \<rparr>
     \<noteq> 0"
proof -
  let ?st1 = "\<lparr> created = 1, cachedCenters = Some (0, centers_literal),
                lastFetchTime = Some 2000 \<rparr>"
  have a: "fetchCenters initial_cache 1000 2000 =
     ([FetchCenters, Refresh], (0, centers_literal), ?st1)"
    using facility_cache [of initial_cache undefined 1000 2000, THEN conjunct2, THEN conjunct2,
        THEN conjunct1]
    by (simp add: initial_cache_def)
  have b: "fetchCenters ?st1 302000 303000 = ([FetchCenters], (0, centers_literal), ?st1)"
    using facility_cache [of initial_cache undefined 1000 2000 "[FetchCenters, Refresh]"
        "(0, centers_literal)" ?st1 2000 302000 303000, THEN conjunct2, THEN conjunct1] a
    by (simp add: CACHE_DURATION_def)
  have c: "fetchCenters ?st1 302001 303001 =
     ([FetchCenters, Refresh], (1, centers_literal),
      \<lparr> created = 2, cachedCenters = Some (1, centers_literal), lastFetchTime = Some 303001 \<rparr>)"
    using facility_cache [of ?st1 undefined 302001 303001, THEN conjunct2, THEN conjunct2,
        THEN conjunct1]
    by (simp add: CACHE_DURATION_def)
  have d: "reachable ?st1"
    using reachable.fetch [OF reachable.start a] .
  have e: "created ?st1 \<noteq> 0"
    using facility_cache [of ?st1 undefined 0 0 undefined undefined undefined 0 0 0 0
        centers_literal, THEN conjunct2, THEN conjunct2, THEN conjunct2, THEN conjunct1] d
    by simp
  show ?thesis by (intro conjI a b c d e)
qed

section \<open>The dispatcher\<close>

lemma fetchCenters_literal:
  "reachable st \<Longrightarrow> fetchCenters st now later = (events, (identity, centers), st') \<Longrightarrow>
     centers = centers_literal"
  using reachable_cached [of st]
  by (auto simp: fetchCenters_def refresh_def split: option.splits if_splits)

lemma random_element_Some:
  assumes "0 \<le> u" "u < 1" "xs \<noteq> []"
  shows "\<exists>k < length xs. random_element u xs = Some (xs ! k)"
proof -
  let ?n = "length xs"
  let ?i = "\<lfloor>u * real ?n\<rfloor>"
  have n: "0 < real ?n" using assms(3) by simp
  have lo: "0 \<le> ?i" using assms(1) by simp
  have "u * real ?n < real ?n" using assms(2) n by simp
  then have hi: "?i < int ?n" by (simp add: floor_less_iff)
  have "nat ?i < ?n" using hi nat_less_iff [OF lo] by blast
  moreover have "random_element u xs = Some (xs ! nat ?i)"
    using lo hi by (simp add: random_element_def Let_def)
  ultimately show ?thesis by blast
qed

lemma lists_nonempty: "bookingConfirmations \<noteq> []" "explanations \<noteq> []"
  by (simp_all add: bookingConfirmations_def explanations_def)


lemma lookup_valid:
  "center \<in> set validCenters \<Longrightarrow> \<exists>centerData. map_of centers_literal center = Some centerData"
proof -
  have "map_of centers_literal (js ''davis'') \<noteq> None"
       "map_of centers_literal (js ''roseville'') \<noteq> None"
       "map_of centers_literal (js ''pleasanton'') \<noteq> None"
       "map_of centers_literal (js ''fort cavazos'') \<noteq> None"
    by code_simp+
  then show "center \<in> set validCenters \<Longrightarrow> ?thesis"
    by (auto simp: validCenters_def)
qed

lemma book_appointment_returns:
  assumes "center = [] \<or> center \<in> set validCenters" "0 \<le> u" "u < 1"
  shows "\<exists>responseText. book_appointment unicode centers_literal center service u = Inr responseText"
proof (cases "center = []")
  case True
  then show ?thesis by (simp add: book_appointment_def Let_def)
next
  case False
  with assms(1) obtain centerData where c: "map_of centers_literal center = Some centerData"
    using lookup_valid by blast
  obtain k where k: "random_element u bookingConfirmations = Some (bookingConfirmations ! k)"
    using random_element_Some [OF assms(2,3) lists_nonempty(1)] by blast
  show ?thesis
    using False c k by (simp add: book_appointment_def Let_def split: option.splits)
qed

lemma dispatch_returns:
  assumes "center = [] \<or> center \<in> set validCenters" "0 \<le> u" "u < 1"
  shows "\<exists>res. dispatch unicode centers_literal intent center service u = Inr res"
proof -
  obtain responseText where b: "book_appointment unicode centers_literal center service u = Inr responseText"
    using book_appointment_returns [OF assms] by blast
  show ?thesis
    using b by (simp add: dispatch_def Let_def split: option.splits)
qed

















lemma sample_no_center:
  "get (faq_request (JStr (js ''Provide Center Information'')) (JStr []) JUndefined)
     ''queryResult''
   = Inr (JObj [(js ''intent'', JObj [(js ''displayName'', JStr (js ''Provide Center Information''))]),
                (js ''parameters'', JObj [(js ''center'', JStr []), (js ''service'', JUndefined)])])"
  "intent_of
     (JObj [(js ''intent'', JObj [(js ''displayName'', JStr (js ''Provide Center Information''))]),
                (js ''parameters'', JObj [(js ''center'', JStr []), (js ''service'', JUndefined)])])
   = JStr (js ''Provide Center Information'')"
  "lower_or_empty ascii_only (get_opt (parameters_of
     (JObj [(js ''intent'', JObj [(js ''displayName'', JStr (js ''Provide Center Information''))]),
                (js ''parameters'', JObj [(js ''center'', JStr []), (js ''service'', JUndefined)])]))
     ''service'') = Inr []"
  "\<not> truthy (get_opt (parameters_of
     (JObj [(js ''intent'', JObj [(js ''displayName'', JStr (js ''Provide Center Information''))]),
                (js ''parameters'', JObj [(js ''center'', JStr []), (js ''service'', JUndefined)])]))
     ''center'')"
  "fetchCenters initial_cache 1000 2000 =
     ([FetchCenters, Refresh], (0, centers_literal),
      \<lparr> created = 1, cachedCenters = Some (0, centers_literal), lastFetchTime = Some 2000 \<rparr>)"
  by code_simp+




text \<open>
  C10. In every state that requests can produce, the mapping that \<open>fetchCenters\<close>
  returns has exactly the four keys that the center validation admits, each record with
  services, a general booking link, a business link and hours; so every center that
  passes the validation is found in it, and the dispatcher, which reads a record only for
  such a center, returns a response and never reads a property of an absent record.
\<close>

theorem fetched_centers_invariant:
  assumes "reachable st"
    and "fetchCenters st now later = (events, (identity, centers), st')"
  shows "map fst centers = validCenters \<and>
         list_all (\<lambda>(key, centerData). services centerData \<noteq> [] \<and>
                     general_booking_link centerData \<noteq> [] \<and>
                     business_link centerData \<noteq> [] \<and> hours centerData \<noteq> []) centers \<and>
         (\<forall>center. center \<in> set validCenters \<longrightarrow> map_of centers center \<noteq> None) \<and>
         (\<forall>intent center service u.
            (center = [] \<or> center \<in> set validCenters) \<and> 0 \<le> u \<and> u < 1 \<longrightarrow>
            (\<exists>res. dispatch unicode centers intent center service u = Inr res)) \<and>
         reachable st'"
proof -
  have cs: "centers = centers_literal"
    using fetchCenters_literal [OF assms] .
  have a: "map fst centers_literal = validCenters" by code_simp
  have b: "list_all (\<lambda>(key, centerData). services centerData \<noteq> [] \<and>
                     general_booking_link centerData \<noteq> [] \<and>
                     business_link centerData \<noteq> [] \<and> hours centerData \<noteq> []) centers_literal"
    by code_simp
  have c: "\<forall>center. center \<in> set validCenters \<longrightarrow> map_of centers_literal center \<noteq> None"
    using lookup_valid by auto
  have d: "\<forall>intent center service u.
            (center = [] \<or> center \<in> set validCenters) \<and> 0 \<le> u \<and> u < 1 \<longrightarrow>
            (\<exists>res. dispatch unicode centers_literal intent center service u = Inr res)"
    using dispatch_returns by blast
  have e: "reachable st'" using reachable.fetch [OF assms] .
  show ?thesis unfolding cs by (intro conjI a b c d e)
qed

theorem fetched_centers_invariant_witness:
  "reachable initial_cache \<and>
   fetchCenters initial_cache 1000 2000 =
     ([FetchCenters, Refresh], (0, centers_literal),
      \<lparr> created = 1, cachedCenters = Some (0, centers_literal), lastFetchTime = Some 2000 \<rparr>) \<and>
   map fst centers_literal = validCenters \<and>
   map_of centers_literal (js ''fort cavazos'') \<noteq> None \<and>
   (\<exists>res. dispatch ascii_only centers_literal (JStr (js ''Reschedule Appointment'')) (js ''fort cavazos'')
             [] (1 / 2) = Inr res) \<and>
   reachable \<lparr> created = 1, cachedCenters = Some (0, centers_literal), lastFetchTime = Some 2000 \<rparr>"
proof -
  note spec = fetched_centers_invariant [OF reachable.start sample_no_center(5),
      where unicode = ascii_only]
  have v: "js ''fort cavazos'' \<in> set validCenters" by (simp add: validCenters_def)
  have a: "map_of centers_literal (js ''fort cavazos'') \<noteq> None"
    using spec [THEN conjunct2, THEN conjunct2, THEN conjunct1] v by blast
  have b: "\<exists>res. dispatch ascii_only centers_literal (JStr (js ''Reschedule Appointment''))
             (js ''fort cavazos'') [] (1 / 2) = Inr res"
    using spec [THEN conjunct2, THEN conjunct2, THEN conjunct2, THEN conjunct1] v by simp
  show ?thesis
    by (intro conjI reachable.start sample_no_center(5) spec [THEN conjunct1] a b
        spec [THEN conjunct2, THEN conjunct2, THEN conjunct2, THEN conjunct2])
qed

end
